theory Spec2Isabelle
  imports Complex_Main "HOL-Library.Sublist"
begin

section \<open>Python strings\<close>

text \<open>
  Strings are lists of 8-bit characters. The string methods below are the Python built-ins the
  source calls, restricted to ASCII text: \<open>lower\<close> and \<open>upper\<close> change the 26 letters and
  leave every other character alone, white space is what \<open>str.isspace\<close> accepts below 128,
  and a digit is one of \<open>0\<close> .. \<open>9\<close>.
\<close>

definition ascii_uppercase :: string where
  "ascii_uppercase = ''ABCDEFGHIJKLMNOPQRSTUVWXYZ''"

definition ascii_lowercase :: string where
  "ascii_lowercase = ''abcdefghijklmnopqrstuvwxyz''"

definition lower_char :: "char \<Rightarrow> char" where
  "lower_char c =
     (case map_of (zip ascii_uppercase ascii_lowercase) c of Some d \<Rightarrow> d | None \<Rightarrow> c)"

definition upper_char :: "char \<Rightarrow> char" where
  "upper_char c =
     (case map_of (zip ascii_lowercase ascii_uppercase) c of Some d \<Rightarrow> d | None \<Rightarrow> c)"

definition py_lower :: "string \<Rightarrow> string" where
  "py_lower s = map lower_char s"

definition py_upper :: "string \<Rightarrow> string" where
  "py_upper s = map upper_char s"

definition is_space :: "char \<Rightarrow> bool" where
  "is_space c = (c \<in> set [CHR 0x09, CHR 0x0A, CHR 0x0B, CHR 0x0C, CHR 0x0D,
                           CHR 0x1C, CHR 0x1D, CHR 0x1E, CHR 0x1F, CHR 0x20])"

definition is_digit :: "char \<Rightarrow> bool" where
  "is_digit c = (c \<in> set ''0123456789'')"

definition py_strip :: "string \<Rightarrow> string" where
  "py_strip s = rev (dropWhile is_space (rev (dropWhile is_space s)))"

fun py_startswith :: "string \<Rightarrow> string \<Rightarrow> bool" where
  "py_startswith [] s = True"
| "py_startswith (p # ps) [] = False"
| "py_startswith (p # ps) (c # cs) = (p = c \<and> py_startswith ps cs)"

definition py_endswith :: "string \<Rightarrow> string \<Rightarrow> bool" where
  "py_endswith p s = py_startswith (rev p) (rev s)"

text \<open>\<open>sub in s\<close>: a left-to-right search for the first position where \<open>sub\<close> starts.\<close>

fun py_in :: "string \<Rightarrow> string \<Rightarrow> bool" where
  "py_in sub [] = (sub = [])"
| "py_in sub (c # cs) = (py_startswith sub (c # cs) \<or> py_in sub cs)"

text \<open>\<open>sep.join(parts)\<close>.\<close>

fun py_join :: "string \<Rightarrow> string list \<Rightarrow> string" where
  "py_join sep [] = []"
| "py_join sep [x] = x"
| "py_join sep (x # y # ys) = x @ sep @ py_join sep (y # ys)"

text \<open>\<open>s.split()\<close>: the maximal runs of characters that are not white space.\<close>

fun split_from :: "string \<Rightarrow> string \<Rightarrow> string list" where
  "split_from cur [] = (if cur = [] then [] else [cur])"
| "split_from cur (c # cs) =
     (if is_space c then (if cur = [] then split_from [] cs else cur # split_from [] cs)
      else split_from (cur @ [c]) cs)"

definition py_split :: "string \<Rightarrow> string list" where
  "py_split s = split_from [] s"

section \<open>Exceptions\<close>

text \<open>
  Every \<open>raise\<close> of the source is a value: a function that can raise returns
  \<open>py_exception + 'a\<close>, with \<open>Inl\<close> for the exception. \<open>ExternalError\<close> stands for whatever a
  remote service or a library raises (all of them are caught as \<open>Exception\<close>).
\<close>

datatype py_exception =
    ValueError string
  | KeyError string
  | AttributeError string
  | TypeError string
  | IndexError string
  | RetryError
  | ExternalError string

section \<open>Identifier extraction (utils/helpers.py, processors/batch\_processor.py)\<close>

text \<open>
  \<open>re.search(r'PMC(\d+)', url)\<close>: the leftmost position where \<open>PMC\<close> is followed by at least
  one digit; group 1 is the longest run of digits there (\<open>+\<close> is greedy). The result is
  group 1, or \<open>None\<close> when no position matches.
\<close>

fun re_search_pmc :: "string \<Rightarrow> string option" where
  "re_search_pmc [] = None"
| "re_search_pmc (c # cs) =
     (let digits = takeWhile is_digit (drop 3 (c # cs)) in
      if py_startswith ''PMC'' (c # cs) \<and> digits \<noteq> [] then Some digits
      else re_search_pmc cs)"

definition extract_pmc_id :: "string \<Rightarrow> string option" where
  "extract_pmc_id url =
     (case re_search_pmc url of
        Some group1 \<Rightarrow> Some (''PMC'' @ group1)
      | None \<Rightarrow> None)"

text \<open>\<open>PMCBatchProcessor._extract_pmc_id\<close>: the same search, raising on no match.\<close>

definition batch_extract_pmc_id :: "string \<Rightarrow> py_exception + string" where
  "batch_extract_pmc_id url =
     (case re_search_pmc url of
        Some group1 \<Rightarrow> Inr (''PMC'' @ group1)
      | None \<Rightarrow> Inl (ValueError (''Invalid PMC URL: '' @ url)))"

text \<open>
  The words of the claim: position \<open>i\<close> of \<open>url\<close> starts an occurrence of \<open>PMC\<close> followed by
  a digit.
\<close>

definition pmc_digit_at :: "string \<Rightarrow> nat \<Rightarrow> bool" where
  "pmc_digit_at url i =
     (\<exists>d. is_digit d \<and> take 4 (drop i url) = ''PMC'' @ [d])"

section \<open>The document parser (clients/pmc\_client.py)\<close>

subsection \<open>Element trees\<close>

text \<open>
  An \<open>xml.etree.ElementTree.Element\<close>: its tag, its attributes, the text between its start tag
  and its first child (\<open>None\<close> when there is none), its children, and its tail, the text
  between its end tag and the next sibling.
\<close>

datatype element =
  Element (tag: string) (attrib: "(string \<times> string) list") (elem_text: "string option")
          (children: "element list") (tail: "string option")

text \<open>The proper descendants of an element in document order, as \<open>iter()\<close> visits them.\<close>

fun descendants :: "element \<Rightarrow> element list" where
  "descendants (Element t a x cs y) = concat (map (\<lambda>c. c # descendants c) cs)"

text \<open>\<open>e.findall('.//name')\<close> and \<open>e.find('.//name')\<close>.\<close>

definition findall_desc :: "string \<Rightarrow> element \<Rightarrow> element list" where
  "findall_desc name e = filter (\<lambda>d. tag d = name) (descendants e)"

definition find_desc :: "string \<Rightarrow> element \<Rightarrow> element option" where
  "find_desc name e = (case findall_desc name e of [] \<Rightarrow> None | d # ds \<Rightarrow> Some d)"

definition nonempty_text :: "string option \<Rightarrow> string list" where
  "nonempty_text t = (case t of None \<Rightarrow> [] | Some s \<Rightarrow> if s = [] then [] else [s])"

text \<open>\<open>itertext()\<close>: the element's text, then for each child its own texts and its tail.\<close>

fun itertext :: "element \<Rightarrow> string list" where
  "itertext (Element t a x cs y) =
     nonempty_text x @ concat (map (\<lambda>c. itertext c @ nonempty_text (tail c)) cs)"

definition get_element_text :: "element \<Rightarrow> string" where
  "get_element_text e =
     py_join '' '' (filter (\<lambda>clean_text. clean_text \<noteq> []) (map py_strip (itertext e)))"

subsection \<open>Sections\<close>

text \<open>
  A Python \<open>dict\<close> keeps its keys in insertion order, and \<open>_extract_full_text\<close> reads that
  order, so a dictionary of sections is an association list. \<open>dict_get\<close> is \<open>d.get(k)\<close>,
  \<open>dict_set\<close> is \<open>d[k] = v\<close>: an existing key keeps its place, a new key goes last.
\<close>

type_synonym sections = "(string \<times> string) list"

definition dict_get :: "('k \<times> 'v) list \<Rightarrow> 'k \<Rightarrow> 'v option" where
  "dict_get d k = map_of d k"

fun dict_set :: "('k \<times> 'v) list \<Rightarrow> 'k \<Rightarrow> 'v \<Rightarrow> ('k \<times> 'v) list" where
  "dict_set [] k v = [(k, v)]"
| "dict_set ((k', v') # d) k v = (if k' = k then (k, v) # d else (k', v') # dict_set d k v)"

definition normalize_section_title :: "string \<Rightarrow> string" where
  "normalize_section_title title =
     (let title_lower = py_lower title in
      if py_in ''introduction'' title_lower \<or> py_in ''background'' title_lower
        then ''introduction''
      else if py_in ''method'' title_lower \<or> py_in ''material'' title_lower
        then ''methods''
      else if py_in ''result'' title_lower then ''results''
      else if py_in ''discussion'' title_lower then ''discussion''
      else if py_in ''conclusion'' title_lower then ''conclusion''
      else map (\<lambda>c. if c = CHR '' '' then CHR ''_'' else c) title_lower)"

text \<open>
  The guard of the loop body of \<open>_parse_body_sections\<close>: the text of the first \<open>title\<close>
  descendant, when that element exists and its text is neither \<open>None\<close> nor empty.
\<close>

definition sec_title_text :: "element \<Rightarrow> string option" where
  "sec_title_text sec =
     (case find_desc ''title'' sec of
        None \<Rightarrow> None
      | Some title_elem \<Rightarrow>
          (case elem_text title_elem of
             None \<Rightarrow> None
           | Some t \<Rightarrow> if t = [] then None else Some t))"

definition section_key :: "string \<Rightarrow> string" where
  "section_key title_text = normalize_section_title (py_strip (py_lower title_text))"

text \<open>One pass of the loop body, on the dictionary built so far.\<close>

definition add_section :: "sections \<Rightarrow> element \<Rightarrow> sections" where
  "add_section sections sec =
     (case sec_title_text sec of
        None \<Rightarrow> sections
      | Some title_text \<Rightarrow>
          (let key = section_key title_text;
               section_text = get_element_text sec
           in case dict_get sections key of
                Some old \<Rightarrow> dict_set sections key (old @ ''\<newline>\<newline>'' @ section_text)
              | None \<Rightarrow> dict_set sections key section_text))"

definition parse_sections_of :: "element list \<Rightarrow> sections" where
  "parse_sections_of secs = foldl add_section [] secs"

definition parse_body_sections :: "element \<Rightarrow> sections" where
  "parse_body_sections body = parse_sections_of (findall_desc ''sec'' body)"

subsection \<open>Articles and the derived full text\<close>

text \<open>
  The metadata dictionary: a field that \<open>_parse_metadata\<close> may leave out is an option; the two
  lists are read with \<open>.get(key, [])\<close> everywhere, so an absent list is the empty list.
\<close>

record author =
  first_name :: "string option"
  last_name :: "string option"

record metadata =
  m_pmc_id :: string
  m_title :: "string option"
  m_abstract :: "string option"
  m_journal :: "string option"
  m_publication_date :: "string option"
  m_doi :: "string option"
  m_pmid :: "string option"
  m_authors :: "author list"
  m_keywords :: "string list"

text \<open>
  The article dictionary, with the keys the pipeline reads. The source reads \<open>metadata\<close> and
  \<open>sections\<close> defensively (\<open>.get\<close>, \<open>in\<close>), so either may be absent; \<open>full_text\<close> is read by
  index only.
\<close>

record article =
  art_pmc_id :: string
  metadata :: "metadata option"
  sections :: "sections option"
  full_text :: string

definition section_order :: "string list" where
  "section_order = [''introduction'', ''methods'', ''results'', ''discussion'', ''conclusion'']"

definition article_abstract :: "article \<Rightarrow> string" where
  "article_abstract a =
     (case metadata a of
        None \<Rightarrow> []
      | Some m \<Rightarrow> (case m_abstract m of None \<Rightarrow> [] | Some s \<Rightarrow> s))"

definition article_sections :: "article \<Rightarrow> sections" where
  "article_sections a = (case sections a of None \<Rightarrow> [] | Some s \<Rightarrow> s)"

text \<open>\<open>_extract_full_text\<close>, with its list \<open>parts\<close> threaded through the three steps.\<close>

definition extract_full_text :: "article \<Rightarrow> string" where
  "extract_full_text a =
     (let abstract_text = article_abstract a;
          parts1 = (if abstract_text \<noteq> [] then [''ABSTRACT\<newline>'' @ abstract_text]
                    else []);
          secs = article_sections a;
          parts2 = foldl (\<lambda>parts section_name.
                     case dict_get secs section_name of
                       Some t \<Rightarrow> parts @ [py_upper section_name @ ''\<newline>'' @ t]
                     | None \<Rightarrow> parts) parts1 section_order;
          parts3 = foldl (\<lambda>parts (key, t).
                     if key \<notin> set section_order
                     then parts @ [py_upper key @ ''\<newline>'' @ t] else parts) parts2 secs
      in py_join ''\<newline>\<newline>'' parts3)"

text \<open>
  The concatenation rule in the words of the specification: the abstract part, the canonical
  sections that are present, in the fixed order, then the remaining sections in encounter
  order.
\<close>

definition header_part :: "string \<Rightarrow> string \<Rightarrow> string" where
  "header_part key t = py_upper key @ ''\<newline>'' @ t"

definition full_text_rule :: "string \<Rightarrow> sections \<Rightarrow> string" where
  "full_text_rule abstract_text secs =
     py_join ''\<newline>\<newline>''
       ((if abstract_text = [] then [] else [header_part ''abstract'' abstract_text])
        @ concat (map (\<lambda>k. case map_of secs k of None \<Rightarrow> [] | Some t \<Rightarrow> [header_part k t])
                   [''introduction'', ''methods'', ''results'', ''discussion'', ''conclusion''])
        @ map (\<lambda>(k, t). header_part k t)
            (filter (\<lambda>(k, t). k \<notin> {''introduction'', ''methods'', ''results'', ''discussion'',
                                     ''conclusion''}) secs))"

subsection \<open>Vocabulary of the parser's properties\<close>

text \<open>
  A heading contains a word when the word is a contiguous part of the lower-cased heading
  (\<open>sublist\<close> is the library's \<open>\<exists>ps ss. ys = ps @ xs @ ss\<close>).
\<close>

definition title_has :: "string \<Rightarrow> string \<Rightarrow> bool" where
  "title_has word title = sublist word (py_lower title)"

text \<open>
  The key a \<open>sec\<close> element is filed under, when it has a usable title; the texts of the
  sections filed under one key, in encounter order.
\<close>

definition sec_key :: "element \<Rightarrow> string option" where
  "sec_key sec = (case sec_title_text sec of None \<Rightarrow> None | Some t \<Rightarrow> Some (section_key t))"

definition texts_for_key :: "string \<Rightarrow> element list \<Rightarrow> string list" where
  "texts_for_key k secs = map get_element_text (filter (\<lambda>s. sec_key s = Some k) secs)"

definition section_texts :: "string \<Rightarrow> element \<Rightarrow> string list" where
  "section_texts k body = texts_for_key k (findall_desc ''sec'' body)"

text \<open>
  A \<open>sec\<close> element has no usable title when \<open>sec.find('.//title')\<close> finds no element, or
  finds one whose \<open>text\<close> is \<open>None\<close> or the empty string.
\<close>

definition no_usable_title :: "element \<Rightarrow> bool" where
  "no_usable_title sec =
     (case find_desc ''title'' sec of
        None \<Rightarrow> True
      | Some title_elem \<Rightarrow> elem_text title_elem = None \<or> elem_text title_elem = Some [])"

text \<open>What a key holds after more texts are merged into an entry.\<close>

definition merged :: "string option \<Rightarrow> string list \<Rightarrow> string option" where
  "merged old ts =
     (case old of
        None \<Rightarrow> if ts = [] then None else Some (py_join ''\<newline>\<newline>'' ts)
      | Some v \<Rightarrow> Some (py_join ''\<newline>\<newline>'' (v # ts)))"

subsection \<open>Example documents\<close>

definition leaf :: "string \<Rightarrow> string \<Rightarrow> element" where
  "leaf name t = Element name [] (Some t) [] None"

text \<open>A body with a \<open>Background\<close> and an \<open>Introduction\<close> section around a \<open>Methods\<close> one.\<close>

definition two_intro_body :: element where
  "two_intro_body =
     Element ''body'' [] None
       [Element ''sec'' [] None [leaf ''title'' ''Background'', leaf ''p'' ''First text.''] None,
        Element ''sec'' [] None [leaf ''title'' ''Methods'', leaf ''p'' ''How.''] None,
        Element ''sec'' [] None [leaf ''title'' ''Introduction'', leaf ''p'' ''Second text.''] None]
       None"

text \<open>
  A section whose title is wholly inside an \<open>italic\<close> child, and a section with no title.
\<close>

definition markup_title_sec :: element where
  "markup_title_sec =
     Element ''sec'' [] None
       [Element ''title'' [] None [leaf ''italic'' ''Results''] None, leaf ''p'' ''Lost text.'']
       None"

definition markup_title_body :: element where
  "markup_title_body =
     Element ''body'' [] None
       [markup_title_sec, Element ''sec'' [] None [leaf ''p'' ''No title.''] None]
       None"

text \<open>A section without a title nested in a \<open>Methods\<close> section.\<close>

definition nested_anon_sec :: element where
  "nested_anon_sec = Element ''sec'' [] None [leaf ''p'' ''Anon text.''] None"

definition methods_with_nested :: element where
  "methods_with_nested =
     Element ''sec'' [] None [leaf ''title'' ''Methods'', leaf ''p'' ''Top.'', nested_anon_sec] None"

definition nested_body :: element where
  "nested_body = Element ''body'' [] None [methods_with_nested] None"

text \<open>
  A section whose title is wholly inside an \<open>italic\<close> child, written on a line of its own, so
  that the title's direct text is a line break and two spaces.
\<close>

definition indented_title_sec :: element where
  "indented_title_sec =
     Element ''sec'' [] None
       [Element ''title'' [] (Some ''\<newline>  '') [leaf ''italic'' ''Results''] None,
        leaf ''p'' ''Kept.'']
       None"

text \<open>A section with no title child of its own, around a titled section.\<close>

definition borrowed_title_sec :: element where
  "borrowed_title_sec =
     Element ''sec'' [] None
       [leaf ''p'' ''Outer.'',
        Element ''sec'' [] None [leaf ''title'' ''Results'', leaf ''p'' ''Inner.''] None]
       None"

definition example_article :: article where
  "example_article =
     \<lparr>art_pmc_id = ''PMC1'',
      metadata = Some \<lparr>m_pmc_id = ''PMC1'', m_title = None, m_abstract = Some ''An abstract.'',
        m_journal = None, m_publication_date = None, m_doi = None, m_pmid = None,
        m_authors = [], m_keywords = []\<rparr>,
      sections = Some [(''funding'', ''F''), (''results'', ''R''), (''introduction'', ''I'')],
      full_text = ''''\<rparr>"

section \<open>The enrichment client (clients/ai\_client.py)\<close>

subsection \<open>JSON values and external services\<close>

text \<open>
  A decoded JSON document. A number keeps its literal: no arithmetic is done on it.
\<close>

datatype json =
    JNull
  | JBool bool
  | JNum string
  | JStr string
  | JArr "json list"
  | JObj "(string \<times> json) list"

text \<open>What \<open>SentenceTransformer.encode\<close> gives back: it raises, or returns an array with one
  row per input text (\<open>len\<close> of it is the number of rows), or an object that has no \<open>len\<close>.\<close>

datatype encode_result =
    EncRaises py_exception
  | EncArray "real list list"
  | EncNoLen

text \<open>
  What the model is asked: the title, the abstract and the prepared excerpt. The instruction
  text around them is the same in every call and is left out.
\<close>

record prompt =
  prompt_title :: string
  prompt_abstract :: string
  prompt_content :: string

text \<open>
  Everything outside the process is a parameter. \<open>groq n p\<close> is the answer to the \<open>n\<close>-th
  model call, \<open>encode n texts\<close> the answer to the \<open>n\<close>-th call of the embedding model, so a
  service may fail once and work later. \<open>fetch_article\<close> is the outcome of the source fetcher
  for an identifier (its own retries included). A sink's \<open>_error\<close> is the exception its write
  raises for an identifier, if any; a failing write raises before it stores anything.
  \<open>es_client\<close> is false when Elasticsearch was unavailable at start-up. \<open>now\<close> is the
  database's \<open>NOW()\<close>.
\<close>

record services =
  groq :: "nat \<Rightarrow> prompt \<Rightarrow> py_exception + string"
  json_loads :: "string \<Rightarrow> json option"
  json_dumps :: "json \<Rightarrow> string"
  encode :: "nat \<Rightarrow> string list \<Rightarrow> encode_result"
  fetch_article :: "string \<Rightarrow> py_exception + article"
  postgres_error :: "string \<Rightarrow> py_exception option"
  weaviate_error :: "string \<Rightarrow> py_exception option"
  es_client :: bool
  es_error :: "string \<Rightarrow> py_exception option"
  neo4j_error :: "string \<Rightarrow> py_exception option"
  now :: nat

subsection \<open>The state outside the run statistics\<close>

text \<open>
  The rows of \<open>processing_status\<close> and \<open>publications\<close>. The tables' declarations are not
  among the sources; a row has the columns the statements of the source name. Both tables are
  keyed by \<open>pmc_id\<close> (the \<open>ON CONFLICT (pmc_id)\<close> target), so a table is a dictionary from
  identifiers to rows. A column that holds \<open>json.dumps\<close> of a value holds a string.
\<close>

record status_row =
  status :: string
  started_at :: nat
  completed_at :: "nat option"
  attempts :: nat
  last_error :: "string option"

record publication_row =
  p_pmid :: "string option"
  p_doi :: "string option"
  p_title :: "string option"
  p_abstract :: "string option"
  p_journal :: "string option"
  p_publication_date :: "string option"
  p_authors :: string
  p_keywords :: string
  p_hypothesis :: "json option"
  p_key_findings :: string
  p_organisms_studied :: string
  p_space_conditions :: string
  p_full_text :: string
  p_created_at :: "nat option"
  p_updated_at :: "nat option"

datatype sink_write =
    WeaviatePublication string
  | WeaviateSection string string
  | ElasticIndex string
  | GraphPublication string

text \<open>
  \<open>llm_calls\<close> and \<open>encode_calls\<close> count the calls made to the two models;
  \<open>processing_errors\<close> is the error log (identifier, message, type name); \<open>sink_writes\<close> lists
  the writes to the vector, search and graph stores in the order they were made.
\<close>

record world =
  llm_calls :: nat
  encode_calls :: nat
  processing_status :: "(string \<times> status_row) list"
  processing_errors :: "(string \<times> string \<times> string) list"
  publications :: "(string \<times> publication_row) list"
  sink_writes :: "sink_write list"

type_synonym 'a action = "world \<Rightarrow> (py_exception + 'a) \<times> world"

text \<open>Sequencing: an exception of the first action ends the sequence.\<close>

definition and_then :: "'a action \<Rightarrow> ('a \<Rightarrow> 'b action) \<Rightarrow> 'b action" where
  "and_then m f w = (case m w of (Inl e, w') \<Rightarrow> (Inl e, w') | (Inr a, w') \<Rightarrow> f a w')"

text \<open>
  \<open>@retry(stop=stop_after_attempt(n), ...)\<close>: the function is called again while it raises,
  at most \<open>n\<close> times in all; then \<open>RetryError\<close> is raised. The waiting between attempts is
  time and is not modelled.
\<close>

fun retry :: "nat \<Rightarrow> 'a action \<Rightarrow> 'a action" where
  "retry 0 f w = (Inl RetryError, w)"
| "retry (Suc n) f w = (case f w of (Inr v, w') \<Rightarrow> (Inr v, w') | (Inl e, w') \<Rightarrow> retry n f w')"

subsection \<open>Structured extraction\<close>

definition default_enriched_data :: json where
  "default_enriched_data =
     JObj [(''hypothesis'', JStr ''Not extracted''),
           (''organisms'', JArr []),
           (''space_conditions'', JArr []),
           (''key_findings'', JArr []),
           (''implications'', JStr ''Not extracted''),
           (''knowledge_gaps'', JArr []),
           (''entities'', JArr [])]"

definition priority_sections :: "string list" where
  "priority_sections = [''introduction'', ''results'', ''conclusion'', ''discussion'']"

definition prepare_content_for_llm :: "article \<Rightarrow> string" where
  "prepare_content_for_llm a =
     (let secs = article_sections a;
          content_parts = foldl (\<lambda>parts section_name.
             case dict_get secs section_name of
               Some t \<Rightarrow> parts @ [py_upper section_name @ '': ''
                                     @ py_join '' '' (take 500 (py_split t))]
             | None \<Rightarrow> parts) [] priority_sections
      in py_join ''\<newline>\<newline>'' content_parts)"

definition fence :: string where
  "fence = [CHR 0x60, CHR 0x60, CHR 0x60]"

text \<open>The three clean-up steps on the stripped response, before the second \<open>strip\<close>.\<close>

definition strip_code_fences :: "string \<Rightarrow> string" where
  "strip_code_fences t =
     (let t1 = (if py_startswith (fence @ ''json'') t then drop 7 t else t);
          t2 = (if py_startswith fence t1 then drop 3 t1 else t1)
      in if py_endswith fence t2 then take (length t2 - 3) t2 else t2)"

definition or_empty :: "string option \<Rightarrow> string" where
  "or_empty x = (case x of None \<Rightarrow> [] | Some s \<Rightarrow> s)"

text \<open>
  The body of \<open>extract_structured_info\<close>. The excerpt and the prompt are built before the
  \<open>try\<close>: reading \<open>article_data['metadata']\<close> raises \<open>KeyError\<close> when the key is absent.
  Inside the \<open>try\<close>, one model call is made; any exception of the call and a
  \<open>JSONDecodeError\<close> of \<open>json.loads\<close> both return the default structure.
\<close>

definition extract_structured_info_body :: "services \<Rightarrow> article \<Rightarrow> json action" where
  "extract_structured_info_body sv a w =
     (let content = prepare_content_for_llm a in
      case metadata a of
        None \<Rightarrow> (Inl (KeyError ''metadata''), w)
      | Some m \<Rightarrow>
          (let p = \<lparr>prompt_title = or_empty (m_title m),
                    prompt_abstract = or_empty (m_abstract m),
                    prompt_content = content\<rparr>;
               response = groq sv (llm_calls w) p;
               w' = w\<lparr>llm_calls := llm_calls w + 1\<rparr>
           in case response of
                Inl e \<Rightarrow> (Inr default_enriched_data, w')
              | Inr response_text \<Rightarrow>
                  (case json_loads sv (py_strip (strip_code_fences (py_strip response_text))) of
                     None \<Rightarrow> (Inr default_enriched_data, w')
                   | Some enriched_data \<Rightarrow> (Inr enriched_data, w'))))"

definition extract_structured_info :: "services \<Rightarrow> article \<Rightarrow> json action" where
  "extract_structured_info sv a = retry 3 (extract_structured_info_body sv a)"

subsection \<open>Embeddings\<close>

text \<open>
  The \<open>except\<close> branch of \<open>generate_embeddings\<close> computes
  \<open>len(encode(["test"])) if hasattr(encode(["test"]), '__len__') else 384\<close>: the condition
  calls the model once, and when the answer has a length the model is called again and the
  length of that second answer is taken. An exception of either call leaves the function.
\<close>

definition probe_embedding_dim :: "services \<Rightarrow> nat action" where
  "probe_embedding_dim sv w =
     (let w1 = w\<lparr>encode_calls := encode_calls w + 1\<rparr> in
      case encode sv (encode_calls w) [''test''] of
        EncRaises e \<Rightarrow> (Inl e, w1)
      | EncNoLen \<Rightarrow> (Inr 384, w1)
      | EncArray rows1 \<Rightarrow>
          (let w2 = w1\<lparr>encode_calls := encode_calls w1 + 1\<rparr> in
           case encode sv (encode_calls w1) [''test''] of
             EncRaises e \<Rightarrow> (Inl e, w2)
           | EncNoLen \<Rightarrow> (Inl (TypeError ''object has no len()''), w2)
           | EncArray rows2 \<Rightarrow> (Inr (length rows2), w2)))"

definition zero_embeddings :: "nat \<Rightarrow> string list \<Rightarrow> real list list" where
  "zero_embeddings embedding_dim texts = map (\<lambda>_. replicate embedding_dim 0) texts"

definition generate_embeddings_body :: "services \<Rightarrow> string list \<Rightarrow> real list list action" where
  "generate_embeddings_body sv texts w =
     (let w1 = w\<lparr>encode_calls := encode_calls w + 1\<rparr> in
      case encode sv (encode_calls w) texts of
        EncArray rows \<Rightarrow> (Inr rows, w1)
      | _ \<Rightarrow> and_then (probe_embedding_dim sv)
               (\<lambda>embedding_dim w'. (Inr (zero_embeddings embedding_dim texts), w')) w1)"

definition generate_embeddings :: "services \<Rightarrow> string list \<Rightarrow> real list list action" where
  "generate_embeddings sv texts = retry 3 (generate_embeddings_body sv texts)"

text \<open>
  An embedding model that keeps the interface of the specification (one vector of dimension
  \<open>d\<close> per text) and whose first call fails; and a model service whose first call fails and
  whose later calls answer with an empty JSON object.
\<close>

definition flaky_encode :: "nat \<Rightarrow> nat \<Rightarrow> string list \<Rightarrow> encode_result" where
  "flaky_encode d n texts =
     (if n = 0 then EncRaises (ExternalError ''encode failed'')
      else EncArray (map (\<lambda>_. replicate d 1) texts))"

definition flaky_groq :: "nat \<Rightarrow> prompt \<Rightarrow> py_exception + string" where
  "flaky_groq n p = (if n = 0 then Inl (ExternalError ''rate limit'') else Inr ''{}'')"

definition loads_empty_object :: "string \<Rightarrow> json option" where
  "loads_empty_object s = (if s = ''{}'' then Some (JObj []) else None)"

section \<open>The batch processor (processors/batch\_processor.py)\<close>

subsection \<open>Status tracking and the error log\<close>

text \<open>
  \<open>_update_processing_status\<close>: an upsert for \<open>processing\<close>, an \<open>UPDATE\<close> of the row with
  this identifier for \<open>completed\<close> and for \<open>failed\<close>. The \<open>if\<close>/\<open>elif\<close> chain of the source
  has these three branches and no \<open>else\<close>: any other status executes no statement. The
  relational store is taken to be reachable: its statements for the status table and the
  error log do not raise.
\<close>

definition update_processing_status ::
  "services \<Rightarrow> string \<Rightarrow> string \<Rightarrow> string option \<Rightarrow> world \<Rightarrow> world" where
  "update_processing_status sv pmc_id new_status error w =
     (let tbl = processing_status w in
      if new_status = ''processing'' then
        (case dict_get tbl pmc_id of
           None \<Rightarrow> w\<lparr>processing_status := dict_set tbl pmc_id
                      \<lparr>status = new_status, started_at = now sv, completed_at = None,
                       attempts = 1, last_error = None\<rparr>\<rparr>
         | Some r \<Rightarrow> w\<lparr>processing_status := dict_set tbl pmc_id
                      (r\<lparr>status := new_status, started_at := now sv,
                         attempts := attempts r + 1\<rparr>)\<rparr>)
      else if new_status = ''completed'' then
        (case dict_get tbl pmc_id of
           None \<Rightarrow> w
         | Some r \<Rightarrow> w\<lparr>processing_status := dict_set tbl pmc_id
                      (r\<lparr>status := new_status, completed_at := Some (now sv)\<rparr>)\<rparr>)
      else if new_status = ''failed'' then
        (case dict_get tbl pmc_id of
           None \<Rightarrow> w
         | Some r \<Rightarrow> w\<lparr>processing_status := dict_set tbl pmc_id
                      (r\<lparr>status := new_status, last_error := error\<rparr>)\<rparr>)
      else w)"

text \<open>\<open>type(e).__name__\<close> and \<open>str(e)\<close>.\<close>

fun exception_name :: "py_exception \<Rightarrow> string" where
  "exception_name (ValueError m) = ''ValueError''"
| "exception_name (KeyError m) = ''KeyError''"
| "exception_name (AttributeError m) = ''AttributeError''"
| "exception_name (TypeError m) = ''TypeError''"
| "exception_name (IndexError m) = ''IndexError''"
| "exception_name RetryError = ''RetryError''"
| "exception_name (ExternalError m) = ''Exception''"

fun exception_message :: "py_exception \<Rightarrow> string" where
  "exception_message (ValueError m) = m"
| "exception_message (KeyError m) = [CHR 0x27] @ m @ [CHR 0x27]"
| "exception_message (AttributeError m) = m"
| "exception_message (TypeError m) = m"
| "exception_message (IndexError m) = m"
| "exception_message RetryError = ''RetryError''"
| "exception_message (ExternalError m) = m"

definition log_error :: "string \<Rightarrow> string \<Rightarrow> string \<Rightarrow> world \<Rightarrow> world" where
  "log_error pmc_id error_message error_type w =
     w\<lparr>processing_errors := processing_errors w @ [(pmc_id, error_message, error_type)]\<rparr>"

subsection \<open>The four sinks\<close>

definition author_json :: "author \<Rightarrow> json" where
  "author_json a =
     JObj ((case last_name a of None \<Rightarrow> [] | Some s \<Rightarrow> [(''last_name'', JStr s)])
           @ (case first_name a of None \<Rightarrow> [] | Some s \<Rightarrow> [(''first_name'', JStr s)]))"

text \<open>\<open>enriched_data.get(key)\<close> and \<open>enriched_data.get(key, [])\<close> on a dictionary.\<close>

definition json_list_or_empty :: "(string \<times> json) list \<Rightarrow> string \<Rightarrow> json" where
  "json_list_or_empty obj key = (case dict_get obj key of None \<Rightarrow> JArr [] | Some v \<Rightarrow> v)"

text \<open>The row of the \<open>VALUES\<close> clause; \<open>created_at\<close> is \<open>NOW()\<close>.\<close>

definition inserted_row ::
  "services \<Rightarrow> metadata \<Rightarrow> (string \<times> json) list \<Rightarrow> string \<Rightarrow> publication_row" where
  "inserted_row sv m obj text_of_article =
     \<lparr>p_pmid = m_pmid m, p_doi = m_doi m, p_title = m_title m, p_abstract = m_abstract m,
      p_journal = m_journal m, p_publication_date = m_publication_date m,
      p_authors = json_dumps sv (JArr (map author_json (m_authors m))),
      p_keywords = json_dumps sv (JArr (map JStr (m_keywords m))),
      p_hypothesis = dict_get obj ''hypothesis'',
      p_key_findings = json_dumps sv (json_list_or_empty obj ''key_findings''),
      p_organisms_studied = json_dumps sv (json_list_or_empty obj ''organisms''),
      p_space_conditions = json_dumps sv (json_list_or_empty obj ''space_conditions''),
      p_full_text = text_of_article,
      p_created_at = Some (now sv), p_updated_at = None\<rparr>"

text \<open>
  \<open>INSERT ... ON CONFLICT (pmc_id) DO UPDATE SET updated_at = NOW(), title = EXCLUDED.title,
  abstract = EXCLUDED.abstract, full_text = EXCLUDED.full_text\<close>: with no row for the
  identifier the proposed row is inserted; otherwise the four named columns of the existing
  row are assigned and the row keeps its other columns.
\<close>

definition upsert_publication ::
  "services \<Rightarrow> string \<Rightarrow> publication_row \<Rightarrow> (string \<times> publication_row) list
     \<Rightarrow> (string \<times> publication_row) list" where
  "upsert_publication sv pmc_id excluded tbl =
     (case dict_get tbl pmc_id of
        None \<Rightarrow> dict_set tbl pmc_id excluded
      | Some existing \<Rightarrow>
          dict_set tbl pmc_id
            (existing\<lparr>p_updated_at := Some (now sv), p_title := p_title excluded,
                      p_abstract := p_abstract excluded,
                      p_full_text := p_full_text excluded\<rparr>))"

definition store_in_postgres :: "services \<Rightarrow> string \<Rightarrow> article \<Rightarrow> json \<Rightarrow> unit action" where
  "store_in_postgres sv pmc_id article_data enriched_data w =
     (case metadata article_data of
        None \<Rightarrow> (Inl (KeyError ''metadata''), w)
      | Some m \<Rightarrow>
          (case enriched_data of
             JObj obj \<Rightarrow>
               (case postgres_error sv pmc_id of
                  Some e \<Rightarrow> (Inl e, w)
                | None \<Rightarrow>
                    (Inr (), w\<lparr>publications :=
                       upsert_publication sv pmc_id
                         (inserted_row sv m obj (full_text article_data))
                         (publications w)\<rparr>))
           | _ \<Rightarrow> (Inl (AttributeError ''object has no attribute get''), w)))"

definition store_in_weaviate ::
  "services \<Rightarrow> string \<Rightarrow> article \<Rightarrow> json \<Rightarrow> real list \<Rightarrow> (string \<times> real list) list
     \<Rightarrow> unit action" where
  "store_in_weaviate sv pmc_id article_data enriched_data full_text_embedding
       section_embeddings w =
     (case metadata article_data of
        None \<Rightarrow> (Inl (KeyError ''metadata''), w)
      | Some m \<Rightarrow>
          (case enriched_data of
             JObj obj \<Rightarrow>
               (case weaviate_error sv pmc_id of
                  Some e \<Rightarrow> (Inl e, w)
                | None \<Rightarrow>
                    (let secs = article_sections article_data;
                         stored = filter (\<lambda>(section_name, emb).
                                    case dict_get secs section_name of
                                      None \<Rightarrow> False
                                    | Some section_text \<Rightarrow> section_text \<noteq> [])
                                    section_embeddings
                     in (Inr (), w\<lparr>sink_writes := sink_writes w
                           @ [WeaviatePublication pmc_id]
                           @ map (\<lambda>(section_name, emb). WeaviateSection pmc_id section_name)
                               stored\<rparr>)))
           | _ \<Rightarrow> (Inl (AttributeError ''object has no attribute get''), w)))"

definition index_in_elasticsearch :: "services \<Rightarrow> string \<Rightarrow> article \<Rightarrow> unit action" where
  "index_in_elasticsearch sv pmc_id article_data w =
     (if \<not> es_client sv then (Inr (), w)
      else case metadata article_data of
             None \<Rightarrow> (Inl (KeyError ''metadata''), w)
           | Some m \<Rightarrow>
               (case es_error sv pmc_id of
                  Some e \<Rightarrow> (Inl e, w)
                | None \<Rightarrow> (Inr (), w\<lparr>sink_writes := sink_writes w @ [ElasticIndex pmc_id]\<rparr>)))"

text \<open>\<open>KnowledgeGraphBuilder.create_publication_node\<close>, as one write to the graph store.\<close>

definition create_publication_node :: "services \<Rightarrow> article \<Rightarrow> json \<Rightarrow> unit action" where
  "create_publication_node sv article_data enriched_data w =
     (case enriched_data of
        JObj obj \<Rightarrow>
          (case neo4j_error sv (art_pmc_id article_data) of
             Some e \<Rightarrow> (Inl e, w)
           | None \<Rightarrow>
               (Inr (), w\<lparr>sink_writes := sink_writes w
                          @ [GraphPublication (art_pmc_id article_data)]\<rparr>))
      | _ \<Rightarrow> (Inl (AttributeError ''object has no attribute get''), w))"

subsection \<open>One article\<close>

record task_result =
  result_pmc_id :: string
  result_status :: string
  result_reason :: "string option"
  result_metadata :: "metadata option"

text \<open>The check that an article has a section with text other than white space.\<close>

definition sections_available :: "article \<Rightarrow> bool" where
  "sections_available article_data =
     (case sections article_data of
        None \<Rightarrow> False
      | Some secs \<Rightarrow> secs \<noteq> [] \<and> list_ex (\<lambda>(k, t). py_strip t \<noteq> []) secs)"

text \<open>\<open>emb[0]\<close>.\<close>

definition first_row :: "real list list \<Rightarrow> real list action" where
  "first_row emb w =
     (case emb of
        [] \<Rightarrow> (Inl (IndexError ''list index out of range''), w)
      | v # vs \<Rightarrow> (Inr v, w))"

text \<open>The loop that embeds every section with a non-empty text.\<close>

fun embed_sections ::
  "services \<Rightarrow> (string \<times> string) list \<Rightarrow> (string \<times> real list) list
     \<Rightarrow> (string \<times> real list) list action" where
  "embed_sections sv [] section_embeddings w = (Inr section_embeddings, w)"
| "embed_sections sv ((section_name, section_text) # rest) section_embeddings w =
     (if section_text \<noteq> [] then
        and_then (generate_embeddings sv [take 8000 section_text]) (\<lambda>emb.
        and_then (first_row emb) (\<lambda>v.
          embed_sections sv rest (dict_set section_embeddings section_name v))) w
      else embed_sections sv rest section_embeddings w)"

text \<open>Steps 2 to 7 of \<open>process_single_article\<close>.\<close>

definition enrich_and_store :: "services \<Rightarrow> string \<Rightarrow> article \<Rightarrow> unit action" where
  "enrich_and_store sv pmc_id article_data =
     and_then (extract_structured_info sv article_data) (\<lambda>enriched_data.
     and_then (generate_embeddings sv [take 8000 (full_text article_data)])
       (\<lambda>full_text_embedding.
     and_then (embed_sections sv (article_sections article_data) []) (\<lambda>section_embeddings.
     and_then (store_in_postgres sv pmc_id article_data enriched_data) (\<lambda>_.
     and_then (first_row full_text_embedding) (\<lambda>v.
     and_then (store_in_weaviate sv pmc_id article_data enriched_data v section_embeddings)
       (\<lambda>_.
     and_then (index_in_elasticsearch sv pmc_id article_data) (\<lambda>_.
     create_publication_node sv article_data enriched_data)))))))"

text \<open>The \<open>except\<close> branch: log, mark \<open>failed\<close>, raise again.\<close>

definition handle_failure :: "services \<Rightarrow> string \<Rightarrow> py_exception \<Rightarrow> task_result action" where
  "handle_failure sv pmc_id e w =
     (Inl e, update_processing_status sv pmc_id ''failed'' (Some (exception_message e))
               (log_error pmc_id (exception_message e) (exception_name e) w))"

definition skipped_result :: "string \<Rightarrow> task_result" where
  "skipped_result pmc_id =
     \<lparr>result_pmc_id = pmc_id, result_status = ''skipped'',
      result_reason = Some ''no_sections'', result_metadata = None\<rparr>"

definition success_result :: "string \<Rightarrow> article \<Rightarrow> task_result" where
  "success_result pmc_id article_data =
     \<lparr>result_pmc_id = pmc_id, result_status = ''success'',
      result_reason = None, result_metadata = metadata article_data\<rparr>"

definition process_single_article :: "services \<Rightarrow> string \<Rightarrow> task_result action" where
  "process_single_article sv pmc_url w =
     (case batch_extract_pmc_id pmc_url of
        Inl e \<Rightarrow> (Inl e, w)
      | Inr pmc_id \<Rightarrow>
          (let w1 = update_processing_status sv pmc_id ''processing'' None w in
           case fetch_article sv pmc_id of
             Inl e \<Rightarrow> handle_failure sv pmc_id e w1
           | Inr article_data \<Rightarrow>
               if \<not> sections_available article_data then
                 (Inr (skipped_result pmc_id),
                  update_processing_status sv pmc_id ''skipped_no_sections'' None w1)
               else
                 (case enrich_and_store sv pmc_id article_data w1 of
                    (Inl e, w2) \<Rightarrow> handle_failure sv pmc_id e w2
                  | (Inr u, w2) \<Rightarrow>
                      (Inr (success_result pmc_id article_data),
                       update_processing_status sv pmc_id ''completed'' None w2))))"

subsection \<open>The run\<close>

record stats =
  total :: nat
  success :: nat
  errors :: nat
  skipped :: nat

text \<open>The counters as \<open>__init__\<close> sets them.\<close>

definition initial_stats :: stats where
  "initial_stats = \<lparr>total = 0, success = 0, errors = 0, skipped = 0\<rparr>"

definition is_completed :: "world \<Rightarrow> string \<Rightarrow> bool" where
  "is_completed w pmc_id =
     (case dict_get (processing_status w) pmc_id of
        None \<Rightarrow> False
      | Some r \<Rightarrow> status r = ''completed'')"

text \<open>
  The loop that drops the identifiers already completed; an entry with no identifier raises.
\<close>

fun select_urls ::
  "(string \<Rightarrow> bool) \<Rightarrow> string list \<Rightarrow> string list \<Rightarrow> stats
     \<Rightarrow> (py_exception + string list) \<times> stats" where
  "select_urls processed [] urls_to_process st = (Inr urls_to_process, st)"
| "select_urls processed (url # urls) urls_to_process st =
     (case batch_extract_pmc_id url of
        Inl e \<Rightarrow> (Inl e, st)
      | Inr pmc_id \<Rightarrow>
          if \<not> processed pmc_id
          then select_urls processed urls (urls_to_process @ [url]) st
          else select_urls processed urls urls_to_process (st\<lparr>skipped := skipped st + 1\<rparr>))"

text \<open>
  \<open>[urls[i:i+batch_size] for i in range(0, len(urls), batch_size)]\<close>. A negative step makes
  the range empty; a zero step raises and is dealt with by the caller.
\<close>

definition batches :: "int \<Rightarrow> 'a list \<Rightarrow> 'a list list" where
  "batches batch_size xs =
     (if batch_size \<le> 0 then []
      else let b = nat batch_size
           in map (\<lambda>j. take b (drop (j * b) xs)) [0 ..< (length xs + b - 1) div b])"

text \<open>
  \<open>asyncio.gather(*tasks, return_exceptions=True)\<close>: one result per task, in the order of the
  tasks, an exception being a result. The tasks of a batch are run here one after the other in
  list order; the real interleaving is not modelled.
\<close>

fun gather :: "services \<Rightarrow> string list \<Rightarrow> world
     \<Rightarrow> (py_exception + task_result) list \<times> world" where
  "gather sv [] w = ([], w)"
| "gather sv (url # urls) w =
     (case process_single_article sv url w of
        (r, w1) \<Rightarrow> (case gather sv urls w1 of (rs, w2) \<Rightarrow> (r # rs, w2)))"

definition count_result :: "stats \<Rightarrow> py_exception + task_result \<Rightarrow> stats" where
  "count_result st r =
     (case r of
        Inl e \<Rightarrow> st\<lparr>errors := errors st + 1\<rparr>
      | Inr res \<Rightarrow>
          if result_status res = ''success'' then st\<lparr>success := success st + 1\<rparr>
          else if result_status res = ''skipped'' then st\<lparr>skipped := skipped st + 1\<rparr>
          else st)"

definition run_batch :: "services \<Rightarrow> stats \<times> world \<Rightarrow> string list \<Rightarrow> stats \<times> world" where
  "run_batch sv p batch =
     (case gather sv batch (snd p) of
        (raw_results, w') \<Rightarrow> (foldl count_result (fst p) raw_results, w'))"

text \<open>
  \<open>process_all_articles\<close> on a processor whose counters are \<open>fst p\<close>. The method assigns
  \<open>total\<close> and adds to the other counters; it does not reset them. The printing, the two
  time stamps and the pause between batches are left out (the final report divides by the
  duration of the run, which is positive as soon as the clock has advanced).
\<close>

definition process_all_articles ::
  "services \<Rightarrow> string list \<Rightarrow> int \<Rightarrow> stats \<times> world
     \<Rightarrow> (py_exception + unit) \<times> stats \<times> world" where
  "process_all_articles sv pmc_urls batch_size p =
     (let st1 = (fst p)\<lparr>total := length pmc_urls\<rparr>;
          w = snd p
      in case select_urls (is_completed w) pmc_urls [] st1 of
           (Inl e, st2) \<Rightarrow> (Inl e, (st2, w))
         | (Inr urls_to_process, st2) \<Rightarrow>
             if batch_size = 0
             then (Inl (ValueError ''range() arg 3 must not be zero''), (st2, w))
             else (Inr (), foldl (run_batch sv) (st2, w) (batches batch_size urls_to_process)))"


subsection \<open>Example services, articles and stores\<close>

definition example_metadata :: metadata where
  "example_metadata =
     \<lparr>m_pmc_id = ''PMC1'', m_title = Some ''Mice in orbit'', m_abstract = Some ''An abstract.'',
      m_journal = None, m_publication_date = Some ''2024-05'', m_doi = None, m_pmid = None,
      m_authors = [], m_keywords = [''microgravity'']\<rparr>"

definition valid_article :: article where
  "valid_article =
     \<lparr>art_pmc_id = ''PMC1'', metadata = Some example_metadata,
      sections = Some [(''introduction'', ''Some text.'')],
      full_text = ''ABSTRACT\<newline>An abstract.\<newline>\<newline>INTRODUCTION\<newline>Some text.''\<rparr>"

text \<open>A fetched document whose only section holds white space.\<close>

definition blank_article :: article where
  "blank_article =
     \<lparr>art_pmc_id = ''PMC11930778'',
      metadata = Some (example_metadata\<lparr>m_pmc_id := ''PMC11930778''\<rparr>),
      sections = Some [(''introduction'', ''   '')],
      full_text = ''ABSTRACT\<newline>An abstract.\<newline>\<newline>INTRODUCTION\<newline>   ''\<rparr>"

definition demo_fetch :: "string \<Rightarrow> py_exception + article" where
  "demo_fetch pmc_id =
     (if pmc_id = ''PMC1'' then Inr valid_article
      else if pmc_id = ''PMC11930778'' then Inr blank_article
      else Inl (ExternalError ''API error 404''))"

definition broken_encode :: "nat \<Rightarrow> string list \<Rightarrow> encode_result" where
  "broken_encode n texts = EncRaises (ExternalError ''model unavailable'')"

text \<open>
  Services in which every sink works, the model and the embedding model fail on their first
  call only, and the embedding model has dimension 384.
\<close>

definition demo_services :: services where
  "demo_services =
     \<lparr>groq = flaky_groq, json_loads = loads_empty_object, json_dumps = (\<lambda>j. ''[]''),
      encode = flaky_encode 384, fetch_article = demo_fetch,
      postgres_error = (\<lambda>i. None), weaviate_error = (\<lambda>i. None), es_client = True,
      es_error = (\<lambda>i. None), neo4j_error = (\<lambda>i. None), now = 7\<rparr>"

definition empty_world :: world where
  "empty_world =
     \<lparr>llm_calls = 0, encode_calls = 0, processing_status = [], processing_errors = [],
      publications = [], sink_writes = []\<rparr>"

text \<open>A row stored by an earlier run, with enrichment columns of that run.\<close>

definition stored_row :: publication_row where
  "stored_row =
     \<lparr>p_pmid = Some ''123'', p_doi = None, p_title = Some ''Old title'',
      p_abstract = Some ''Old abstract'', p_journal = Some ''J'', p_publication_date = None,
      p_authors = ''[]'', p_keywords = ''[]'', p_hypothesis = Some (JStr ''Bone loss''),
      p_key_findings = ''[a finding]'', p_organisms_studied = ''[mouse]'',
      p_space_conditions = ''[]'', p_full_text = ''Old text'', p_created_at = Some 3,
      p_updated_at = None\<rparr>"



definition stored_world :: world where
  "stored_world = empty_world\<lparr>publications := [(''PMC1'', stored_row)]\<rparr>"



section \<open>Properties of the parser and of identifier extraction\<close>

lemma py_startswith_prefix: "py_startswith p s = prefix p s"
  by (induction p s rule: py_startswith.induct) auto

lemma py_in_sublist: "py_in sub s = sublist sub s"
  by (induction s) (auto simp: py_startswith_prefix sublist_Cons_right)

subsection \<open>Section-title normalization\<close>

text \<open>
  Claim C5. \<open>_normalize_section_title\<close> is a function of the heading text alone (it reads
  no state, so equal headings get equal keys), and its substring rules are tried in the listed
  order: a heading containing \<open>introduction\<close> or \<open>background\<close> maps to \<open>introduction\<close>;
  otherwise one containing \<open>method\<close> or \<open>material\<close> maps to \<open>methods\<close>; otherwise
  \<open>result\<close> gives \<open>results\<close>, then \<open>discussion\<close> gives \<open>discussion\<close>, then \<open>conclusion\<close>
  gives \<open>conclusion\<close>; any other heading maps to its lower-cased form with every space replaced
  by an underscore. Matching is on the lower-cased heading.
\<close>

theorem normalize_section_title_precedence:
  "(title_has ''introduction'' t \<or> title_has ''background'' t \<longrightarrow>
      normalize_section_title t = ''introduction'')
   \<and> (\<not> title_has ''introduction'' t \<and> \<not> title_has ''background'' t
       \<and> (title_has ''method'' t \<or> title_has ''material'' t) \<longrightarrow>
      normalize_section_title t = ''methods'')
   \<and> (\<not> title_has ''introduction'' t \<and> \<not> title_has ''background'' t
       \<and> \<not> title_has ''method'' t \<and> \<not> title_has ''material'' t
       \<and> title_has ''result'' t \<longrightarrow>
      normalize_section_title t = ''results'')
   \<and> (\<not> title_has ''introduction'' t \<and> \<not> title_has ''background'' t
       \<and> \<not> title_has ''method'' t \<and> \<not> title_has ''material'' t
       \<and> \<not> title_has ''result'' t \<and> title_has ''discussion'' t \<longrightarrow>
      normalize_section_title t = ''discussion'')
   \<and> (\<not> title_has ''introduction'' t \<and> \<not> title_has ''background'' t
       \<and> \<not> title_has ''method'' t \<and> \<not> title_has ''material'' t
       \<and> \<not> title_has ''result'' t \<and> \<not> title_has ''discussion'' t
       \<and> title_has ''conclusion'' t \<longrightarrow>
      normalize_section_title t = ''conclusion'')
   \<and> (\<not> title_has ''introduction'' t \<and> \<not> title_has ''background'' t
       \<and> \<not> title_has ''method'' t \<and> \<not> title_has ''material'' t
       \<and> \<not> title_has ''result'' t \<and> \<not> title_has ''discussion'' t
       \<and> \<not> title_has ''conclusion'' t \<longrightarrow>
      normalize_section_title t = map (\<lambda>c. if c = CHR '' '' then CHR ''_'' else c) (py_lower t))"
  unfolding title_has_def normalize_section_title_def Let_def py_in_sublist
  by (intro conjI impI) (simp_all only: if_True if_False simp_thms)

lemma title_has_code: "title_has word title = py_in word (py_lower title)"
  by (simp add: title_has_def py_in_sublist)

lemmas lower_simps = title_has_code py_lower_def lower_char_def ascii_uppercase_def
  ascii_lowercase_def

text \<open>
  \<open>Materials and Results\<close> contains both \<open>material\<close> and \<open>result\<close>: the earlier rule
  wins. \<open>Study Design\<close> matches no rule and becomes a slug.
\<close>

theorem normalize_section_title_precedence_witness:
  "normalize_section_title ''Materials and Results'' = ''methods''
   \<and> normalize_section_title ''Study Design'' = ''study_design''"
proof -
  have m: "title_has ''material'' ''Materials and Results''"
    and i: "\<not> title_has ''introduction'' ''Materials and Results''"
    and b: "\<not> title_has ''background'' ''Materials and Results''"
    by (simp_all add: lower_simps)
  have first: "normalize_section_title ''Materials and Results'' = ''methods''"
    using normalize_section_title_precedence [of "''Materials and Results''"] m i b by blast
  have none: "\<not> title_has ''introduction'' ''Study Design''"
    "\<not> title_has ''background'' ''Study Design''"
    "\<not> title_has ''method'' ''Study Design''"
    "\<not> title_has ''material'' ''Study Design''"
    "\<not> title_has ''result'' ''Study Design''"
    "\<not> title_has ''discussion'' ''Study Design''"
    "\<not> title_has ''conclusion'' ''Study Design''"
    by (simp_all add: lower_simps)
  have "normalize_section_title ''Study Design''
          = map (\<lambda>c. if c = CHR '' '' then CHR ''_'' else c) (py_lower ''Study Design'')"
    using normalize_section_title_precedence [of "''Study Design''"] none by blast
  then have second: "normalize_section_title ''Study Design'' = ''study_design''"
    by (simp add: lower_simps)
  from first second show ?thesis by simp
qed

subsection \<open>Identifier extraction\<close>

lemma startswith_PMC: "py_startswith ''PMC'' s = (take 3 s = ''PMC'')"
  by (cases s; cases "tl s"; cases "tl (tl s)") auto

lemma takeWhile_nonempty: "(takeWhile P r \<noteq> []) = (\<exists>d r'. r = d # r' \<and> P d)"
  by (cases r) auto

text \<open>The test the search makes at one position is the occurrence test of the claim.\<close>

lemma pmc_here:
  "(py_startswith ''PMC'' s \<and> takeWhile is_digit (drop 3 s) \<noteq> []) = pmc_digit_at s 0"
proof
  assume a: "py_startswith ''PMC'' s \<and> takeWhile is_digit (drop 3 s) \<noteq> []"
  then obtain d r' where d: "drop 3 s = d # r'" "is_digit d"
    by (auto simp: takeWhile_nonempty)
  from a have t: "take 3 s = ''PMC''" by (simp add: startswith_PMC)
  have "s = take 3 s @ drop 3 s" by simp
  with t d have "s = ''PMC'' @ d # r'" by metis
  then have "take 4 s = ''PMC'' @ [d]" by simp
  with d show "pmc_digit_at s 0" by (auto simp: pmc_digit_at_def)
next
  assume "pmc_digit_at s 0"
  then obtain d where d: "is_digit d" "take 4 s = ''PMC'' @ [d]"
    by (auto simp: pmc_digit_at_def)
  have "take 3 s = take 3 (take 4 s)" by simp
  also have "\<dots> = ''PMC''" by (simp only: d) simp
  finally have t: "take 3 s = ''PMC''" .
  have "drop 3 (take 4 s) = [d]" by (simp only: d) simp
  then have "take 1 (drop 3 s) = [d]" by (simp add: drop_take)
  then have "\<exists>r'. drop 3 s = d # r'" by (cases "drop 3 s") auto
  with t d show "py_startswith ''PMC'' s \<and> takeWhile is_digit (drop 3 s) \<noteq> []"
    by (auto simp: startswith_PMC takeWhile_nonempty)
qed

lemma pmc_digit_at_Suc: "pmc_digit_at (c # s) (Suc i) = pmc_digit_at s i"
  by (simp add: pmc_digit_at_def)

lemma pmc_digit_at_Cons_all:
  "(\<forall>i. \<not> pmc_digit_at (c # cs) i) =
     (\<not> pmc_digit_at (c # cs) 0 \<and> (\<forall>i. \<not> pmc_digit_at cs i))"
proof
  assume a: "\<forall>i. \<not> pmc_digit_at (c # cs) i"
  show "\<not> pmc_digit_at (c # cs) 0 \<and> (\<forall>i. \<not> pmc_digit_at cs i)"
  proof (intro conjI allI)
    show "\<not> pmc_digit_at (c # cs) 0" using a by blast
    fix i show "\<not> pmc_digit_at cs i" using a pmc_digit_at_Suc [of c cs i] by blast
  qed
next
  assume a: "\<not> pmc_digit_at (c # cs) 0 \<and> (\<forall>i. \<not> pmc_digit_at cs i)"
  show "\<forall>i. \<not> pmc_digit_at (c # cs) i"
  proof
    fix i show "\<not> pmc_digit_at (c # cs) i"
      using a by (cases i) (simp_all add: pmc_digit_at_Suc)
  qed
qed

lemma re_search_pmc_skip:
  "\<not> pmc_digit_at (c # cs) 0 \<Longrightarrow> re_search_pmc (c # cs) = re_search_pmc cs"
  using pmc_here [of "c # cs"] by (simp only: re_search_pmc.simps Let_def) simp

lemma re_search_pmc_hit:
  "pmc_digit_at (c # cs) 0 \<Longrightarrow>
   re_search_pmc (c # cs) = Some (takeWhile is_digit (drop 3 (c # cs)))"
  using pmc_here [of "c # cs"] by (simp only: re_search_pmc.simps Let_def) simp

lemma re_search_pmc_None_iff: "(re_search_pmc url = None) = (\<forall>i. \<not> pmc_digit_at url i)"
proof (induction url)
  case Nil
  then show ?case by (simp add: pmc_digit_at_def)
next
  case (Cons c cs)
  show ?case
  proof (cases "pmc_digit_at (c # cs) 0")
    case True
    have "re_search_pmc (c # cs) \<noteq> None"
      by (simp only: re_search_pmc_hit [OF True]) simp
    then show ?thesis using True by blast
  next
    case False
    have "re_search_pmc (c # cs) = re_search_pmc cs"
      using False by (rule re_search_pmc_skip)
    moreover have "(\<forall>i. \<not> pmc_digit_at (c # cs) i) = (\<forall>i. \<not> pmc_digit_at cs i)"
      using False by (simp only: pmc_digit_at_Cons_all) simp
    ultimately show ?thesis using Cons.IH by (simp only:)
  qed
qed

lemma takeWhile_digits:
  assumes "\<forall>c\<in>set ds. is_digit c" "rest = [] \<or> \<not> is_digit (hd rest)"
  shows "takeWhile is_digit (ds @ rest) = ds"
proof (cases rest)
  case Nil
  then show ?thesis using assms(1) by (simp add: takeWhile_eq_all_conv)
next
  case (Cons r rs)
  then have "\<not> is_digit r" using assms(2) by simp
  then have "takeWhile is_digit rest = []" using Cons by simp
  then show ?thesis using assms(1) by (simp add: takeWhile_append2)
qed

lemma re_search_pmc_first:
  assumes "ds \<noteq> []" "\<forall>c\<in>set ds. is_digit c" "rest = [] \<or> \<not> is_digit (hd rest)"
    and "\<forall>j<length pre. \<not> pmc_digit_at (pre @ ''PMC'' @ ds @ rest) j"
  shows "re_search_pmc (pre @ ''PMC'' @ ds @ rest) = Some ds"
  using assms(4)
proof (induction pre)
  case Nil
  have "takeWhile is_digit (ds @ rest) = ds"
    using assms(2,3) by (rule takeWhile_digits)
  then show ?case using assms(1) by (simp add: Let_def)
next
  case (Cons p pre)
  let ?u = "pre @ ''PMC'' @ ds @ rest"
  from Cons.prems have "\<not> pmc_digit_at (p # ?u) 0" by auto
  then have skip: "re_search_pmc (p # ?u) = re_search_pmc ?u" by (rule re_search_pmc_skip)
  have "\<forall>j<length pre. \<not> pmc_digit_at ?u j"
  proof (intro allI impI)
    fix j assume "j < length pre"
    then have "\<not> pmc_digit_at ((p # pre) @ ''PMC'' @ ds @ rest) (Suc j)"
      using Cons.prems by simp
    then show "\<not> pmc_digit_at ?u j" by (simp add: pmc_digit_at_Suc)
  qed
  then have "re_search_pmc ?u = Some ds" by (rule Cons.IH)
  with skip show ?case by simp
qed

text \<open>
  Claim C7. When no position of the input starts \<open>PMC\<close> followed by a digit,
  \<open>extract_pmc_id\<close> returns \<open>None\<close> and the batch processor's \<open>_extract_pmc_id\<close> raises
  \<open>ValueError\<close>. When the input is \<open>pre @ PMC @ ds @ rest\<close>, where \<open>ds\<close> is a non-empty run of
  digits that \<open>rest\<close> does not continue and no occurrence starts inside \<open>pre\<close> (so this is the
  first one), both return exactly \<open>PMC\<close> followed by \<open>ds\<close>.
\<close>

theorem extract_pmc_id_spec:
  "((\<forall>i. \<not> pmc_digit_at url i) \<longrightarrow>
      extract_pmc_id url = None \<and>
      batch_extract_pmc_id url = Inl (ValueError (''Invalid PMC URL: '' @ url)))
   \<and> (url = pre @ ''PMC'' @ ds @ rest \<and> ds \<noteq> [] \<and> (\<forall>c\<in>set ds. is_digit c)
        \<and> (rest = [] \<or> \<not> is_digit (hd rest))
        \<and> (\<forall>j<length pre. \<not> pmc_digit_at url j) \<longrightarrow>
      extract_pmc_id url = Some (''PMC'' @ ds) \<and> batch_extract_pmc_id url = Inr (''PMC'' @ ds))"
proof (intro conjI impI)
  assume "\<forall>i. \<not> pmc_digit_at url i"
  then have n: "re_search_pmc url = None" by (simp add: re_search_pmc_None_iff)
  from n show "extract_pmc_id url = None" by (simp add: extract_pmc_id_def)
  from n show "batch_extract_pmc_id url = Inl (ValueError (''Invalid PMC URL: '' @ url))"
    by (simp add: batch_extract_pmc_id_def)
next
  assume a: "url = pre @ ''PMC'' @ ds @ rest \<and> ds \<noteq> [] \<and> (\<forall>c\<in>set ds. is_digit c)
        \<and> (rest = [] \<or> \<not> is_digit (hd rest))
        \<and> (\<forall>j<length pre. \<not> pmc_digit_at url j)"
  then have s: "re_search_pmc url = Some ds"
    using re_search_pmc_first [of ds rest pre] by blast
  from s show "extract_pmc_id url = Some (''PMC'' @ ds)" by (simp add: extract_pmc_id_def)
  from s show "batch_extract_pmc_id url = Inr (''PMC'' @ ds)"
    by (simp add: batch_extract_pmc_id_def)
qed

lemma pmc_digit_at_take:
  assumes "j < n" shows "pmc_digit_at (take (n + 3) url) j = pmc_digit_at url j"
proof -
  have "drop j (take (n + 3) url) = take (n + 3 - j) (drop j url)"
    by (simp add: drop_take)
  then have "take 4 (drop j (take (n + 3) url)) = take 4 (drop j url)"
    using assms by (simp add: min_def)
  then show ?thesis by (simp add: pmc_digit_at_def)
qed

lemma no_earlier_occurrence:
  assumes "re_search_pmc (take (n + 3) url) = None"
  shows "\<forall>j<n. \<not> pmc_digit_at url j"
  using assms pmc_digit_at_take [of _ n url] by (simp add: re_search_pmc_None_iff)

text \<open>The URL of the docstring and of the repository's test, and the test's invalid URL.\<close>

theorem extract_pmc_id_spec_witness:
  "extract_pmc_id ''https://pmc.ncbi.nlm.nih.gov/articles/PMC11930778/'' = Some ''PMC11930778''
   \<and> batch_extract_pmc_id ''https://pmc.ncbi.nlm.nih.gov/articles/PMC11930778/''
        = Inr ''PMC11930778''
   \<and> extract_pmc_id ''https://example.com/article'' = None
   \<and> batch_extract_pmc_id ''https://example.com/article''
        = Inl (ValueError ''Invalid PMC URL: https://example.com/article'')"
proof -
  let ?url = "''https://pmc.ncbi.nlm.nih.gov/articles/PMC11930778/''"
  let ?pre = "''https://pmc.ncbi.nlm.nih.gov/articles/''"
  let ?bad = "''https://example.com/article''"
  have "re_search_pmc (take (length ?pre + 3) ?url) = None"
    by (simp add: Let_def)
  then have first: "\<forall>j<length ?pre. \<not> pmc_digit_at ?url j"
    by (rule no_earlier_occurrence)
  have shape: "?url = ?pre @ ''PMC'' @ ''11930778'' @ ''/''" by simp
  have digits: "\<forall>c\<in>set ''11930778''. is_digit c" by (simp add: is_digit_def)
  have stop: "''/'' = [] \<or> \<not> is_digit (hd ''/'')" by (simp add: is_digit_def)
  have ne: "''11930778'' \<noteq> []" by simp
  have good: "extract_pmc_id ?url = Some (''PMC'' @ ''11930778'')
      \<and> batch_extract_pmc_id ?url = Inr (''PMC'' @ ''11930778'')"
    using extract_pmc_id_spec [of ?url ?pre "''11930778''" "''/''"] first shape digits stop ne
    by blast
  have "re_search_pmc ?bad = None" by (simp add: Let_def)
  then have none: "\<forall>i. \<not> pmc_digit_at ?bad i" by (rule re_search_pmc_None_iff [THEN iffD1])
  have bad: "extract_pmc_id ?bad = None
      \<and> batch_extract_pmc_id ?bad = Inl (ValueError (''Invalid PMC URL: '' @ ?bad))"
    using extract_pmc_id_spec [of ?bad "[]" "[]" "[]"] none by blast
  from good bad show ?thesis by simp
qed

subsection \<open>The derived full text\<close>

lemma foldl_canonical:
  "foldl (\<lambda>parts k. case f k of Some t \<Rightarrow> parts @ [g k t] | None \<Rightarrow> parts) acc ks
     = acc @ concat (map (\<lambda>k. case f k of None \<Rightarrow> [] | Some t \<Rightarrow> [g k t]) ks)"
  by (induction ks arbitrary: acc) (auto split: option.splits)

lemma foldl_remaining:
  "foldl (\<lambda>parts (k, t). if P k then parts @ [g k t] else parts) acc xs
     = acc @ map (\<lambda>(k, t). g k t) (filter (\<lambda>(k, t). P k) xs)"
  by (induction xs arbitrary: acc) (auto split: prod.splits)

lemma upper_abstract: "py_upper ''abstract'' = ''ABSTRACT''"
  by (simp add: py_upper_def upper_char_def ascii_uppercase_def ascii_lowercase_def)

text \<open>
  Claim C1. The full text that \<open>_extract_full_text\<close> derives from an article is the
  concatenation rule of the specification applied to the article's abstract and sections: the
  abstract, when non-empty, under the header \<open>ABSTRACT\<close>; then the canonical sections present
  in the mapping, in the order introduction, methods, results, discussion, conclusion; then
  every other section in insertion order; each part is its upper-cased key, a line break and
  the text, and the parts are joined by blank lines. The derivation is a function of the
  article alone, so deriving twice gives the same text.
\<close>

theorem extract_full_text_rule:
  "extract_full_text a = full_text_rule (article_abstract a) (article_sections a)"
proof -
  let ?secs = "article_sections a"
  let ?p1 = "if article_abstract a \<noteq> [] then [''ABSTRACT\<newline>'' @ article_abstract a] else []"
  let ?g = "\<lambda>k t. py_upper k @ ''\<newline>'' @ t"
  let ?canon = "concat (map (\<lambda>k. case dict_get ?secs k of None \<Rightarrow> [] | Some t \<Rightarrow> [?g k t])
                   section_order)"
  let ?others = "map (\<lambda>(k, t). ?g k t) (filter (\<lambda>(k, t). k \<notin> set section_order) ?secs)"
  have "extract_full_text a = py_join ''\<newline>\<newline>'' ((?p1 @ ?canon) @ ?others)"
    unfolding extract_full_text_def Let_def
    by (simp only: foldl_canonical [where g = ?g]
          foldl_remaining [where g = ?g and P = "\<lambda>k. k \<notin> set section_order"])
  also have "\<dots> = full_text_rule (article_abstract a) ?secs"
    unfolding full_text_rule_def header_part_def dict_get_def section_order_def
    by (simp add: upper_abstract)
  finally show ?thesis .
qed

text \<open>
  An article inserted in the order funding, results, introduction: the canonical sections come
  first in canonical order, the other section last.
\<close>

theorem extract_full_text_rule_witness:
  "extract_full_text example_article =
     ''ABSTRACT\<newline>An abstract.\<newline>\<newline>INTRODUCTION\<newline>I\<newline>\<newline>RESULTS\<newline>R\<newline>\<newline>FUNDING\<newline>F''"
proof -
  have "full_text_rule (article_abstract example_article) (article_sections example_article)
       = ''ABSTRACT\<newline>An abstract.\<newline>\<newline>INTRODUCTION\<newline>I\<newline>\<newline>RESULTS\<newline>R\<newline>\<newline>FUNDING\<newline>F''"
    by (simp add: full_text_rule_def article_abstract_def article_sections_def
          example_article_def header_part_def py_upper_def upper_char_def
          ascii_uppercase_def ascii_lowercase_def)
  with extract_full_text_rule [of example_article] show ?thesis by (simp only:)
qed

subsection \<open>Sections with the same key, and sections without a title\<close>

lemma map_of_dict_set: "map_of (dict_set d k v) = (map_of d)(k \<mapsto> v)"
  by (induction d k v rule: dict_set.induct) auto

lemma keys_dict_set:
  "map fst (dict_set d k v) = (if k \<in> set (map fst d) then map fst d else map fst d @ [k])"
  by (induction d k v rule: dict_set.induct) auto

lemma distinct_dict_set: "distinct (map fst d) \<Longrightarrow> distinct (map fst (dict_set d k v))"
  by (simp add: keys_dict_set)

lemma py_join_merge: "py_join sep ((a @ sep @ b) # ts) = py_join sep (a # b # ts)"
  by (cases ts) simp_all

lemma add_section_untitled: "sec_title_text sec = None \<Longrightarrow> add_section d sec = d"
  by (simp add: add_section_def)

lemma add_section_titled:
  "sec_key sec = Some k \<Longrightarrow>
   add_section d sec =
     dict_set d k (case map_of d k of
                     Some old \<Rightarrow> old @ ''\<newline>\<newline>'' @ get_element_text sec
                   | None \<Rightarrow> get_element_text sec)"
  by (auto simp: add_section_def sec_key_def dict_get_def Let_def split: option.splits)

lemma sec_key_None: "(sec_key sec = None) = (sec_title_text sec = None)"
  by (simp add: sec_key_def split: option.splits)

lemma distinct_add_section:
  "distinct (map fst d) \<Longrightarrow> distinct (map fst (add_section d sec))"
  by (cases "sec_key sec")
     (simp_all add: sec_key_None add_section_untitled add_section_titled distinct_dict_set)

lemma distinct_foldl_add_section:
  "distinct (map fst d) \<Longrightarrow> distinct (map fst (foldl add_section d secs))"
  by (induction secs arbitrary: d) (simp_all add: distinct_add_section)

text \<open>The loop invariant: what key \<open>k\<close> holds after the loop has run over \<open>secs\<close>.\<close>

lemma map_of_foldl_add_section:
  "map_of (foldl add_section d secs) k = merged (map_of d k) (texts_for_key k secs)"
proof (induction secs arbitrary: d)
  case Nil
  then show ?case by (simp add: merged_def texts_for_key_def split: option.splits)
next
  case (Cons s secs)
  show ?case
  proof (cases "sec_key s")
    case None
    then have "add_section d s = d" by (simp add: sec_key_None add_section_untitled)
    moreover have "texts_for_key k (s # secs) = texts_for_key k secs"
      using None by (simp add: texts_for_key_def)
    ultimately show ?thesis using Cons.IH [of d] by simp
  next
    case (Some k')
    note step = add_section_titled [OF Some, of d]
    show ?thesis
    proof (cases "k' = k")
      case False
      then have "map_of (add_section d s) k = map_of d k"
        by (simp add: step map_of_dict_set)
      moreover have "texts_for_key k (s # secs) = texts_for_key k secs"
        using Some False by (simp add: texts_for_key_def)
      ultimately show ?thesis using Cons.IH [of "add_section d s"] by simp
    next
      case True
      have t: "texts_for_key k (s # secs) = get_element_text s # texts_for_key k secs"
        using Some True by (simp add: texts_for_key_def)
      have "merged (map_of (add_section d s) k) (texts_for_key k secs)
            = merged (map_of d k) (get_element_text s # texts_for_key k secs)"
      proof (cases "map_of d k")
        case None
        then show ?thesis using True by (simp add: step map_of_dict_set merged_def)
      next
        case (Some old)
        then have "map_of (add_section d s) k
                     = Some (old @ ''\<newline>\<newline>'' @ get_element_text s)"
          using True by (simp add: step map_of_dict_set)
        then show ?thesis
          using Some py_join_merge [of "''\<newline>\<newline>''" old "get_element_text s"]
          by (simp add: merged_def)
      qed
      then show ?thesis using Cons.IH [of "add_section d s"] t by simp
    qed
  qed
qed

lemma map_of_parse_body_sections:
  "map_of (parse_body_sections body) k = merged None (section_texts k body)"
  using map_of_foldl_add_section [of "[]" "findall_desc ''sec'' body" k]
  by (simp add: parse_body_sections_def parse_sections_of_def section_texts_def)

lemma filter_key_distinct:
  "distinct (map fst d) \<Longrightarrow> map_of d k = Some v \<Longrightarrow> filter (\<lambda>(k', v'). k' = k) d = [(k, v)]"
proof (induction d)
  case Nil
  then show ?case by simp
next
  case (Cons p d)
  obtain k0 v0 where p: "p = (k0, v0)" by (cases p)
  show ?case
  proof (cases "k0 = k")
    case True
    with Cons.prems p have "v0 = v" "k \<notin> fst ` set d" by auto
    then have "filter (\<lambda>(k', v'). k' = k) d = []"
      by (force simp: filter_empty_conv)
    with True p \<open>v0 = v\<close> show ?thesis by simp
  next
    case False
    with Cons p show ?thesis by simp
  qed
qed

text \<open>
  Claim C6. When the body has sections filed under the key \<open>k\<close> (two or more, or just one),
  the parsed mapping has exactly one entry for \<open>k\<close>, and its value is the texts of those
  sections in encounter order, joined by a blank line. A section is filed under the key its
  first nested title's direct text normalizes to; its text is its flattened content.
\<close>

theorem duplicate_sections_concatenated:
  assumes "section_texts k body \<noteq> []"
  shows "filter (\<lambda>(k', v). k' = k) (parse_body_sections body)
           = [(k, py_join ''\<newline>\<newline>'' (section_texts k body))]"
proof -
  have "map_of (parse_body_sections body) k
               = Some (py_join ''\<newline>\<newline>'' (section_texts k body))"
    using assms by (simp add: map_of_parse_body_sections merged_def)
  moreover have "distinct (map fst (parse_body_sections body))"
    using distinct_foldl_add_section [of "[]" "findall_desc ''sec'' body"]
    by (simp add: parse_body_sections_def parse_sections_of_def)
  ultimately show ?thesis by (rule filter_key_distinct [rotated])
qed

text \<open>The scenario of the specification: \<open>Background\<close>, then \<open>Introduction\<close>.\<close>

theorem duplicate_sections_concatenated_witness:
  "section_texts ''introduction'' two_intro_body
     = [''Background First text.'', ''Introduction Second text.'']
   \<and> filter (\<lambda>(k', v). k' = ''introduction'') (parse_body_sections two_intro_body)
     = [(''introduction'', ''Background First text.\<newline>\<newline>Introduction Second text.'')]"
proof -
  have e: "section_texts ''introduction'' two_intro_body
             = [''Background First text.'', ''Introduction Second text.'']"
    by code_simp
  then have "section_texts ''introduction'' two_intro_body \<noteq> []" by simp
  from duplicate_sections_concatenated [OF this] e show ?thesis by simp
qed

lemma sec_title_text_None: "(sec_title_text sec = None) = no_usable_title sec"
  by (auto simp: sec_title_text_def no_usable_title_def split: option.splits)

lemma foldl_add_section_filter_usable:
  "foldl add_section d (filter (\<lambda>s. \<not> no_usable_title s) secs) = foldl add_section d secs"
  by (induction secs arbitrary: d) (simp_all add: add_section_untitled sec_title_text_None)

lemma sec_key_Some_usable: "sec_key s = Some k \<Longrightarrow> \<not> no_usable_title s"
  by (auto simp: sec_key_def sec_title_text_None [symmetric] split: option.splits)

text \<open>
  Flattening keeps nested text: the texts of a descendant are a contiguous part of the texts
  of an enclosing element, and so is its flattened text.
\<close>

lemma descendant_itertext:
  "d \<in> set (descendants e) \<Longrightarrow> sublist (itertext d) (itertext e)"
proof (induction e arbitrary: d)
  case (Element t a x cs y)
  from Element.prems obtain c where c: "c \<in> set cs" and d: "d = c \<or> d \<in> set (descendants c)"
    by auto
  from c obtain cs1 cs2 where sp: "cs = cs1 @ c # cs2" by (meson split_list)
  have "itertext (Element t a x cs y)
          = (nonempty_text x @ concat (map (\<lambda>c. itertext c @ nonempty_text (tail c)) cs1))
            @ itertext c
            @ (nonempty_text (tail c) @ concat (map (\<lambda>c. itertext c @ nonempty_text (tail c)) cs2))"
    by (simp add: sp)
  then have top: "sublist (itertext c) (itertext (Element t a x cs y))"
    by (metis sublist_appendI)
  from d show ?case
  proof
    assume "d = c" with top show ?thesis by simp
  next
    assume "d \<in> set (descendants c)"
    then have "sublist (itertext d) (itertext c)" using Element.IH c by blast
    then show ?thesis using top by (metis sublist_order.order_trans)
  qed
qed

lemma sublist_filter_map:
  assumes "sublist xs ys"
  shows "sublist (filter P (map f xs)) (filter P (map f ys))"
proof -
  from assms obtain ps ss where "ys = ps @ xs @ ss" by (auto simp: sublist_def)
  then have "filter P (map f ys)
               = filter P (map f ps) @ filter P (map f xs) @ filter P (map f ss)"
    by simp
  then show ?thesis by (metis sublist_appendI)
qed

lemma py_join_append:
  "xs \<noteq> [] \<Longrightarrow> ys \<noteq> [] \<Longrightarrow> py_join sep (xs @ ys) = py_join sep xs @ sep @ py_join sep ys"
proof (induction sep xs rule: py_join.induct)
  case (1 sep)
  then show ?case by simp
next
  case (2 sep x)
  then show ?case by (cases ys) simp_all
next
  case (3 sep x y zs)
  then show ?case by simp
qed

lemma sublist_py_join:
  assumes "sublist ds ls"
  shows "sublist (py_join sep ds) (py_join sep ls)"
proof (cases "ds = []")
  case True
  then show ?thesis by simp
next
  case False
  from assms obtain as bs where l: "ls = as @ ds @ bs" by (auto simp: sublist_def)
  show ?thesis
  proof (cases "as = []")
    case True
    show ?thesis
    proof (cases "bs = []")
      case True
      with \<open>as = []\<close> l show ?thesis by simp
    next
      case bne: False
      have "py_join sep ls = py_join sep ds @ (sep @ py_join sep bs)"
        using l True False bne by (simp add: py_join_append)
      then show ?thesis by (metis sublist_append_rightI)
    qed
  next
    case ane: False
    show ?thesis
    proof (cases "bs = []")
      case True
      have "py_join sep ls = (py_join sep as @ sep) @ py_join sep ds"
        using l True False ane by (simp add: py_join_append)
      then show ?thesis by (metis sublist_append_leftI)
    next
      case bne: False
      have "ds @ bs \<noteq> []" using False by simp
      then have "py_join sep ls = py_join sep as @ sep @ py_join sep (ds @ bs)"
        using l ane py_join_append [of as "ds @ bs" sep] by simp
      also have "\<dots> = (py_join sep as @ sep) @ py_join sep ds @ (sep @ py_join sep bs)"
        using False bne by (simp add: py_join_append)
      finally show ?thesis by (metis sublist_appendI)
    qed
  qed
qed

lemma descendant_text_kept:
  assumes "d \<in> set (descendants e)"
  shows "sublist (get_element_text d) (get_element_text e)"
  unfolding get_element_text_def
  by (intro sublist_py_join sublist_filter_map descendant_itertext assms)

lemma member_py_join: "x \<in> set ls \<Longrightarrow> sublist x (py_join sep ls)"
proof -
  assume "x \<in> set ls"
  then obtain as bs where "ls = as @ [x] @ bs" by (metis split_list append_Cons append_Nil)
  then have "sublist [x] ls" by (metis sublist_appendI)
  from sublist_py_join [OF this, of sep] show ?thesis by simp
qed

text \<open>
  Claim C10, as stated, fails. The claim says that a section without a usable title and its
  text are omitted from the document. First: a section with no title, nested in a
  \<open>Methods\<close> section, adds no key, but its text \<open>Anon text.\<close> is in the document, inside
  the \<open>methods\<close> entry, because the enclosing section is flattened with all nested text.
  Second: a title wholly wrapped in \<open>italic\<close> whose direct text is the white space of an
  indented line is not skipped: its section is filed under the empty key. Third: a section
  with no title child of its own takes the title of a section nested in it, and is filed
  under that key.
\<close>

theorem untitled_text_kept_counterexample:
  "no_usable_title nested_anon_sec
   \<and> findall_desc ''sec'' nested_body = [methods_with_nested, nested_anon_sec]
   \<and> get_element_text nested_anon_sec = ''Anon text.''
   \<and> parse_body_sections nested_body = [(''methods'', ''Methods Top. Anon text.'')]
   \<and> sublist (get_element_text nested_anon_sec) ''Methods Top. Anon text.''
   \<and> parse_body_sections (Element ''body'' [] None [indented_title_sec] None)
       = [('''', ''Results Kept.'')]
   \<and> filter (\<lambda>c. tag c = ''title'') (children borrowed_title_sec) = []
   \<and> parse_body_sections (Element ''body'' [] None [borrowed_title_sec] None)
       = [(''results'', ''Outer. Results Inner.\<newline>\<newline>Results Inner.'')]"
  by code_simp

text \<open>
  Claim C10, amended. A \<open>sec\<close> element for which \<open>find('.//title')\<close> finds no element, or
  finds one whose \<open>text\<close> is \<open>None\<close> or empty, is skipped by the loop: the mapping parsed from
  a list of sections is the same with and without it, so it adds no key and no text on its
  own account and no fallback key is made; the parsed mapping of a body is the one parsed
  from its sections with a usable title, and every key of it is the key of such a section.
  The text of a skipped section is not thereby removed from the document: the entry of a
  titled section contains the flattened text of every element nested in that section.
\<close>

theorem untitled_section_skipped:
  "(no_usable_title u \<longrightarrow> parse_sections_of (xs @ u # ys) = parse_sections_of (xs @ ys))
   \<and> parse_body_sections body
       = parse_sections_of (filter (\<lambda>s. \<not> no_usable_title s) (findall_desc ''sec'' body))
   \<and> (k \<in> fst ` set (parse_body_sections body) \<longrightarrow>
        (\<exists>s\<in>set (findall_desc ''sec'' body). \<not> no_usable_title s \<and> sec_key s = Some k))
   \<and> (s \<in> set (findall_desc ''sec'' body) \<and> sec_key s = Some k' \<and> d \<in> set (descendants s) \<longrightarrow>
        (\<exists>v. dict_get (parse_body_sections body) k' = Some v
             \<and> sublist (get_element_text d) v))"
proof (intro conjI impI)
  assume "no_usable_title u"
  then have "add_section (foldl add_section [] xs) u = foldl add_section [] xs"
    by (simp add: add_section_untitled sec_title_text_None)
  then show "parse_sections_of (xs @ u # ys) = parse_sections_of (xs @ ys)"
    by (simp add: parse_sections_of_def)
next
  show "parse_body_sections body
       = parse_sections_of (filter (\<lambda>s. \<not> no_usable_title s) (findall_desc ''sec'' body))"
    by (simp only: parse_body_sections_def parse_sections_of_def
          foldl_add_section_filter_usable)
next
  assume "k \<in> fst ` set (parse_body_sections body)"
  then have "map_of (parse_body_sections body) k \<noteq> None"
    by (simp add: map_of_eq_None_iff)
  then have "section_texts k body \<noteq> []"
    by (auto simp: map_of_parse_body_sections merged_def split: if_splits)
  then obtain s where s: "s \<in> set (findall_desc ''sec'' body)" "sec_key s = Some k"
    by (auto simp: section_texts_def texts_for_key_def filter_empty_conv)
  with sec_key_Some_usable [of s k]
  show "\<exists>s\<in>set (findall_desc ''sec'' body). \<not> no_usable_title s \<and> sec_key s = Some k"
    by blast
next
  assume a: "s \<in> set (findall_desc ''sec'' body) \<and> sec_key s = Some k' \<and> d \<in> set (descendants s)"
  then have mem: "get_element_text s \<in> set (section_texts k' body)"
    by (auto simp: section_texts_def texts_for_key_def)
  then have ne: "section_texts k' body \<noteq> []" by auto
  let ?v = "py_join ''\<newline>\<newline>'' (section_texts k' body)"
  have v: "dict_get (parse_body_sections body) k' = Some ?v"
    using ne by (simp add: dict_get_def map_of_parse_body_sections merged_def)
  have "sublist (get_element_text d) (get_element_text s)"
    using a by (intro descendant_text_kept) simp
  moreover have "sublist (get_element_text s) ?v"
    using mem by (rule member_py_join)
  ultimately have "sublist (get_element_text d) ?v"
    by (metis sublist_order.order_trans)
  with v show "\<exists>v. dict_get (parse_body_sections body) k' = Some v
             \<and> sublist (get_element_text d) v"
    by blast
qed

text \<open>
  The nested section without a title is skipped and its text is kept in the \<open>methods\<close>
  entry; a body holding only a title wrapped in \<open>italic\<close> (text \<open>None\<close>) and a section with
  no title parses to the empty mapping.
\<close>

theorem untitled_section_skipped_witness:
  "no_usable_title nested_anon_sec
   \<and> parse_sections_of [methods_with_nested, nested_anon_sec]
       = parse_sections_of [methods_with_nested]
   \<and> (\<exists>v. dict_get (parse_body_sections nested_body) ''methods'' = Some v
          \<and> sublist (get_element_text nested_anon_sec) v)
   \<and> parse_body_sections markup_title_body = []"
proof -
  note inst = untitled_section_skipped
    [of nested_anon_sec "[methods_with_nested]" "[]" nested_body "''methods''"
        methods_with_nested "''methods''" nested_anon_sec]
  have u: "no_usable_title nested_anon_sec" by code_simp
  with inst have skip: "parse_sections_of ([methods_with_nested] @ nested_anon_sec # [])
       = parse_sections_of ([methods_with_nested] @ [])"
    by blast
  have "methods_with_nested \<in> set (findall_desc ''sec'' nested_body)"
    and "sec_key methods_with_nested = Some ''methods''"
    and "nested_anon_sec \<in> set (descendants methods_with_nested)"
    by code_simp+
  with inst have kept: "\<exists>v. dict_get (parse_body_sections nested_body) ''methods'' = Some v
          \<and> sublist (get_element_text nested_anon_sec) v"
    by blast
  have "filter (\<lambda>s. \<not> no_usable_title s) (findall_desc ''sec'' markup_title_body) = []"
    by code_simp
  moreover have "parse_body_sections markup_title_body
       = parse_sections_of
           (filter (\<lambda>s. \<not> no_usable_title s) (findall_desc ''sec'' markup_title_body))"
    using untitled_section_skipped [of nested_anon_sec "[]" "[]" markup_title_body "[]"
        nested_anon_sec "[]" nested_anon_sec]
    by blast
  ultimately have "parse_body_sections markup_title_body = []"
    by (simp add: parse_sections_of_def)
  with u skip kept show ?thesis by simp
qed

section \<open>Properties of the enrichment client\<close>

lemma dict_get_dict_set: "dict_get (dict_set d k v) k' = (if k' = k then Some v else dict_get d k')"
  by (simp add: dict_get_def map_of_dict_set)

text \<open>
  The fallback of \<open>extract_structured_info\<close>: for an article that has metadata, a failed model
  call and a response that \<open>json.loads\<close> rejects both give the default structure, no
  exception, and exactly one model call.
\<close>

lemma extract_structured_info_fallback:
  assumes "metadata a = Some m"
    and "p = \<lparr>prompt_title = or_empty (m_title m), prompt_abstract = or_empty (m_abstract m),
              prompt_content = prepare_content_for_llm a\<rparr>"
    and "(\<exists>e. groq sv (llm_calls w) p = Inl e)
         \<or> (\<exists>response_text. groq sv (llm_calls w) p = Inr response_text
              \<and> json_loads sv (py_strip (strip_code_fences (py_strip response_text))) = None)"
  shows "extract_structured_info sv a w
           = (Inr default_enriched_data, w\<lparr>llm_calls := llm_calls w + 1\<rparr>)"
proof -
  have "extract_structured_info_body sv a w
           = (Inr default_enriched_data, w\<lparr>llm_calls := llm_calls w + 1\<rparr>)"
    using assms by (auto simp: extract_structured_info_body_def Let_def)
  then show ?thesis
    by (simp add: extract_structured_info_def numeral_3_eq_3)
qed

text \<open>
  For an article that has metadata the body never raises, so the decorator returns after the
  first attempt: whatever the services do, one call of \<open>extract_structured_info\<close> makes
  exactly one model call.
\<close>

lemma extract_structured_info_single_call:
  assumes "metadata a = Some m"
  shows "\<exists>enriched_data. extract_structured_info sv a w
           = (Inr enriched_data, w\<lparr>llm_calls := llm_calls w + 1\<rparr>)"
proof -
  have "\<exists>enriched_data. extract_structured_info_body sv a w
           = (Inr enriched_data, w\<lparr>llm_calls := llm_calls w + 1\<rparr>)"
    using assms
    by (auto simp: extract_structured_info_body_def Let_def split: sum.splits option.splits)
  then show ?thesis
    by (auto simp: extract_structured_info_def numeral_3_eq_3)
qed

text \<open>
  Claim C3, at a failing input. The model service fails on its first call and would answer
  with valid JSON on the next one. \<open>extract_structured_info\<close> returns the default structure
  after that single call: the \<open>except\<close> branch inside the function returns before the
  \<open>@retry\<close> decorator can see an exception, so the call is never made again. The second
  equation shows that a second attempt would have succeeded.
\<close>

theorem enrichment_fallback_without_retry:
  "extract_structured_info demo_services valid_article empty_world
     = (Inr default_enriched_data, empty_world\<lparr>llm_calls := 1\<rparr>)
   \<and> extract_structured_info_body demo_services valid_article (empty_world\<lparr>llm_calls := 1\<rparr>)
     = (Inr (JObj []), empty_world\<lparr>llm_calls := 2\<rparr>)"
  by code_simp

text \<open>
  The fallback of \<open>generate_embeddings\<close>: when the embedding call fails and the two probe
  calls answer with arrays, every text gets a zero vector whose length is the number of rows
  of the second probe's answer.
\<close>

lemma generate_embeddings_zero_rows:
  assumes "encode sv (encode_calls w) texts = EncRaises e"
    and "encode sv (encode_calls w + 1) [''test''] = EncArray rows1"
    and "encode sv (encode_calls w + 2) [''test''] = EncArray rows2"
  shows "generate_embeddings sv texts w
           = (Inr (zero_embeddings (length rows2) texts), w\<lparr>encode_calls := encode_calls w + 3\<rparr>)"
proof -
  have "generate_embeddings_body sv texts w
           = (Inr (zero_embeddings (length rows2) texts), w\<lparr>encode_calls := encode_calls w + 3\<rparr>)"
    using assms
    by (simp add: generate_embeddings_body_def probe_embedding_dim_def and_then_def Let_def
          add.commute [of 1] numeral_2_eq_2 numeral_3_eq_3)
  then show ?thesis
    by (simp add: generate_embeddings_def numeral_3_eq_3)
qed

text \<open>
  Claim C4, at a failing input. The embedding model has dimension 384 and fails on its first
  call. For the one text \<open>text\<close> the function returns one vector of length 1, not 384: the
  probe \<open>encode(["test"])\<close> answers with one row, and \<open>len\<close> of that answer is 1. The model
  was called three times (the failed call and two probes). With a model that always fails the
  probe raises too, all three attempts fail and \<open>RetryError\<close> reaches the caller.
\<close>

theorem zero_vector_has_probe_batch_length:
  "generate_embeddings demo_services [''text''] empty_world
     = (Inr [[0]], empty_world\<lparr>encode_calls := 3\<rparr>)
   \<and> generate_embeddings (demo_services\<lparr>encode := broken_encode\<rparr>) [''text''] empty_world
     = (Inl RetryError, empty_world\<lparr>encode_calls := 6\<rparr>)"
  by code_simp

section \<open>Properties of the batch processor\<close>

subsection \<open>The relational upsert\<close>

text \<open>
  Claim C8. When the \<open>publications\<close> table already has a row for the identifier and the
  write succeeds, the row afterwards is the existing row with its \<open>updated_at\<close>, \<open>title\<close>,
  \<open>abstract\<close> and \<open>full_text\<close> columns assigned from the new document: the enrichment
  columns (\<open>hypothesis\<close>, \<open>key_findings\<close>, \<open>organisms_studied\<close>, \<open>space_conditions\<close>) and the
  other metadata columns of the first insert are unchanged, and so is every other row.
\<close>

theorem upsert_updates_four_columns:
  assumes "dict_get (publications w) pmc_id = Some existing"
    and "store_in_postgres sv pmc_id article_data enriched_data w = (Inr (), w')"
  shows "\<exists>m row. metadata article_data = Some m
           \<and> dict_get (publications w') pmc_id = Some row
           \<and> row = existing\<lparr>p_updated_at := Some (now sv), p_title := m_title m,
                             p_abstract := m_abstract m,
                             p_full_text := full_text article_data\<rparr>
           \<and> p_hypothesis row = p_hypothesis existing
           \<and> p_key_findings row = p_key_findings existing
           \<and> p_organisms_studied row = p_organisms_studied existing
           \<and> p_space_conditions row = p_space_conditions existing
           \<and> p_pmid row = p_pmid existing \<and> p_doi row = p_doi existing
           \<and> p_journal row = p_journal existing
           \<and> p_publication_date row = p_publication_date existing
           \<and> p_authors row = p_authors existing \<and> p_keywords row = p_keywords existing
           \<and> p_created_at row = p_created_at existing
           \<and> (\<forall>other. other \<noteq> pmc_id \<longrightarrow>
                 dict_get (publications w') other = dict_get (publications w) other)"
proof -
  from assms(2) obtain m obj where m: "metadata article_data = Some m"
    and o: "enriched_data = JObj obj" and ok: "postgres_error sv pmc_id = None"
    by (auto simp: store_in_postgres_def split: option.splits json.splits)
  from assms(2) m o ok have w': "w' = w\<lparr>publications :=
      upsert_publication sv pmc_id (inserted_row sv m obj (full_text article_data))
        (publications w)\<rparr>"
    by (simp add: store_in_postgres_def)
  let ?row = "existing\<lparr>p_updated_at := Some (now sv), p_title := m_title m,
                             p_abstract := m_abstract m,
                             p_full_text := full_text article_data\<rparr>"
  have tbl: "publications w' = dict_set (publications w) pmc_id ?row"
    using assms(1) by (simp add: w' upsert_publication_def inserted_row_def)
  have "dict_get (publications w') pmc_id = Some ?row"
    by (simp add: tbl dict_get_dict_set)
  moreover have "\<forall>other. other \<noteq> pmc_id \<longrightarrow>
                 dict_get (publications w') other = dict_get (publications w) other"
    by (simp add: tbl dict_get_dict_set)
  ultimately show ?thesis using m by simp
qed

text \<open>
  A second write for \<open>PMC1\<close>, with the default enrichment, over a row whose enrichment
  columns came from an earlier run.
\<close>

theorem upsert_updates_four_columns_witness:
  "dict_get (publications stored_world) ''PMC1'' = Some stored_row
   \<and> dict_get (publications (snd (store_in_postgres demo_services ''PMC1'' valid_article
                                     default_enriched_data stored_world))) ''PMC1''
     = Some (stored_row\<lparr>p_updated_at := Some 7, p_title := Some ''Mice in orbit'',
                        p_abstract := Some ''An abstract.'',
                        p_full_text := full_text valid_article\<rparr>)"
proof -
  have before: "dict_get (publications stored_world) ''PMC1'' = Some stored_row"
    by (simp add: stored_world_def empty_world_def dict_get_def)
  have ok: "fst (store_in_postgres demo_services ''PMC1'' valid_article
                  default_enriched_data stored_world) = Inr ()"
    by (simp add: store_in_postgres_def valid_article_def default_enriched_data_def
          demo_services_def)
  then have run: "store_in_postgres demo_services ''PMC1'' valid_article
                  default_enriched_data stored_world
       = (Inr (), snd (store_in_postgres demo_services ''PMC1'' valid_article
                  default_enriched_data stored_world))"
    by (metis prod.collapse)
  have m: "metadata valid_article = Some example_metadata"
    by (simp add: valid_article_def)
  from upsert_updates_four_columns [OF before run] m
  have "dict_get (publications (snd (store_in_postgres demo_services ''PMC1'' valid_article
                                     default_enriched_data stored_world))) ''PMC1''
     = Some (stored_row\<lparr>p_updated_at := Some (now demo_services),
                        p_title := m_title example_metadata,
                        p_abstract := m_abstract example_metadata,
                        p_full_text := full_text valid_article\<rparr>)"
    by auto
  then show ?thesis using before
    by (simp add: demo_services_def example_metadata_def)
qed

subsection \<open>Articles without sections\<close>

text \<open>
  What \<open>process_single_article\<close> does with an article that has no section with text: it
  returns the skipped result, and the store is the one left by the \<open>processing\<close> update. No
  model is called and no sink is written. The update for \<open>skipped_no_sections\<close> changes
  nothing.
\<close>

lemma update_skipped_no_sections:
  "update_processing_status sv pmc_id ''skipped_no_sections'' error w = w"
  by (simp add: update_processing_status_def)

lemma process_single_article_skips:
  assumes "batch_extract_pmc_id pmc_url = Inr pmc_id"
    and "fetch_article sv pmc_id = Inr article_data"
    and "\<not> sections_available article_data"
  shows "process_single_article sv pmc_url w
           = (Inr (skipped_result pmc_id),
              update_processing_status sv pmc_id ''processing'' None w)"
  using assms by (simp add: process_single_article_def Let_def update_skipped_no_sections)

text \<open>
  Claim C9, at a failing input. The scenario of the specification: one URL, whose fetched
  document has only a section of white space. The result is the skipped result, no model was
  called (both counters are 0), nothing was stored in a sink, and the run statistics are
  total 1, success 0, errors 0, skipped 1. But the status recorded for the identifier is
  \<open>processing\<close>, not \<open>skipped_no_sections\<close>.
\<close>

theorem skipped_status_not_recorded:
  "process_single_article demo_services ''https://source.example/articles/PMC11930778/''
       empty_world
     = (Inr (skipped_result ''PMC11930778''),
        empty_world\<lparr>processing_status :=
          [(''PMC11930778'', \<lparr>status = ''processing'', started_at = 7, completed_at = None,
                               attempts = 1, last_error = None\<rparr>)]\<rparr>)
   \<and> fst (snd (process_all_articles demo_services
                  [''https://source.example/articles/PMC11930778/''] 10
                  (initial_stats, empty_world)))
     = \<lparr>total = 1, success = 0, errors = 0, skipped = 1\<rparr>"
  by code_simp

subsection \<open>The run statistics\<close>















end
